theory Spec2Isabelle
  imports Complex_Main
begin

section \<open>The John Snow cholera dashboard (johnsnow_dashboard_app.py)\<close>

text \<open>
  The program is one linear script: it loads two geometry layers, reads six display
  options from sidebar widgets, builds a map object by adding layers to it, and writes
  the map and a statistics panel to the page. The embedding follows the script top to
  bottom. The page is the list of elements the script has emitted, in the order of the
  calls; an exception that the script does not catch ends the run at that point.

  Coordinates are Python floats, idealised here as reals. The one float value that is
  not a real number, NaN, is written out where the script can meet it: as \<open>None\<close> for
  the coordinate of a missing geometry and for a mean, and as \<open>NaN\<close> for a missing count.
  Pictographs in the script's text literals are left out of the strings.
\<close>

subsection \<open>Data model\<close>

text \<open>
  A geometry as the script can tell them apart (lines 78-81, 98-101, 120-123):
  \<^item> \<open>Point x y\<close> has the attributes \<open>x\<close> and \<open>y\<close>;
  \<^item> \<open>CoordSeq cs\<close> has neither attribute but has a coordinate sequence \<open>coords\<close>,
    whose entries are (x, y) pairs;
  \<^item> \<open>NoPointShape\<close> has neither attribute and no coordinate sequence of its own (a
    polygon, whose \<open>coords\<close> raises NotImplementedError);
  \<^item> \<open>NullGeom\<close> is the missing geometry of a record, Python's \<open>None\<close>: it has no
    attribute at all, and \<open>None.coords\<close> raises AttributeError.
\<close>

datatype geom = Point real real | CoordSeq "(real \<times> real) list" | NoPointShape | NullGeom

text \<open>
  The value of a count cell: an integer, as in the dataset, or NaN, which is what the
  cell of a record holds when the layer has the column and the record has no value
  (NULL). The literal \<open>1\<close> of line 83 is \<open>Num 1\<close>.
\<close>

datatype pynum = Num int | NaN

text \<open>
  A row of a layer: its geometry and the column \<open>Count\<close>. \<open>Count r = None\<close> says that
  the row has no such key (\<open>'Count' in row\<close> is false: the layer has no such column);
  \<open>Count r = Some v\<close> says that it has the key, with the cell value \<open>v\<close>.
\<close>

record row =
  geometry :: geom
  Count :: "pynum option"

text \<open>
  A layer as read from the dataset: its coordinate reference system (\<open>None\<close> when the
  file declares none) and its rows in index order. The index of a layer read from a
  file is 0, 1, 2, ..., so \<open>idx\<close> in the loops is the position of the row.
\<close>

record gdf =
  crs :: "string option"
  rows :: "row list"

text \<open>
  What the script takes from outside: the dataset on disk and the projection library.
  \<^item> \<open>read_file path layer\<close> is \<open>gpd.read_file(path, layer=layer)\<close>: the layer, or
    \<open>Inl s\<close> when it raises an exception whose text \<open>str(e)\<close> is \<open>s\<close>;
  \<^item> \<open>crs_ne c s\<close> is the comparison \<open>c != s\<close> of a reference system with a string;
  \<^item> \<open>to_crs g s\<close> is \<open>g.to_crs(s)\<close>, which may raise as well.
\<close>

record env =
  read_file :: "string \<Rightarrow> string \<Rightarrow> string + gdf"
  crs_ne :: "string \<Rightarrow> string \<Rightarrow> bool"
  to_crs :: "gdf \<Rightarrow> string \<Rightarrow> string + gdf"

text \<open>The values the six sidebar widgets return in this run (lines 56-63).\<close>

record selections =
  show_heatmap :: bool
  show_skeletons :: bool
  show_pump_labels :: bool
  heatmap_radius :: int
  heatmap_blur :: int
  heatmap_opacity :: real

text \<open>Exceptions that the script raises and does not catch.\<close>

datatype exn = ValueError | IndexError | NotImplementedError | AttributeError

text \<open>
  The three icons of the script: the \<open>DivIcon\<close> of a death marker (line 110), the green
  \<open>Icon\<close> of a pump (line 128) and the \<open>DivIcon\<close> of a pump label, which shows a text
  (line 136).
\<close>

datatype icon = DeathIcon | PumpIcon | LabelIcon string

text \<open>
  What the script adds to the map: \<open>HeatMap data min_opacity max_opacity radius blur\<close>
  (lines 86-93; the gradient is a constant), \<open>Marker location popup tooltip icon\<close> and
  the layer control. An entry of the heatmap data is (lat, lon, weight).
\<close>

datatype layer =
    HeatMap "(real \<times> real \<times> pynum) list" real real int int
  | Marker "real \<times> real" "string option" "string option" icon
  | LayerControl

record folium_map =
  location :: "real \<times> real"
  zoom_start :: nat
  children :: "layer list"

text \<open>
  The elements of the page. \<open>Error s\<close> is \<open>st.error(s)\<close>; \<open>MapHtml m\<close> is the embedded
  HTML of the saved map (lines 151-155); \<open>Metric label n\<close> is \<open>st.metric(label, n)\<close>.
  The static texts are named, not spelled out.
\<close>

datatype element =
    Title
  | Intro
  | Error string
  | SidebarHeader string
  | SidebarSubheader string
  | Checkbox string bool
  | IntSlider string int int int
  | FloatSlider string real real real
  | MapHtml folium_map
  | Subheader string
  | Metric string nat
  | LegendText
  | HistoryText
  | SidebarRule
  | SidebarAbout

text \<open>A run: the page it produced and the uncaught exception that ended it, if any.\<close>

record outcome =
  page :: "element list"
  crashed :: "exn option"

subsection \<open>Loading (lines 26-46)\<close>

definition shapefile_path :: string where
  "shapefile_path = ''Data/cholera-deaths''"

text \<open>Lines 36-39: convert to WGS84 if the layer has a reference system and it differs.\<close>

definition reproject :: "env \<Rightarrow> gdf \<Rightarrow> string + gdf" where
  "reproject E g =
     (case crs g of
        None \<Rightarrow> Inr g
      | Some c \<Rightarrow> if crs_ne E c ''EPSG:4326'' then to_crs E g ''EPSG:4326'' else Inr g)"

text \<open>
  The body of the \<open>try\<close> (lines 32-41): the two layers, or the text of the first
  exception raised.
\<close>

definition load_body :: "env \<Rightarrow> string + (gdf \<times> gdf)" where
  "load_body E =
     (case read_file E shapefile_path ''Cholera_Deaths'' of
        Inl e \<Rightarrow> Inl e
      | Inr deaths_gdf \<Rightarrow>
     (case read_file E shapefile_path ''Pumps'' of
        Inl e \<Rightarrow> Inl e
      | Inr pumps_gdf \<Rightarrow>
     (case reproject E deaths_gdf of
        Inl e \<Rightarrow> Inl e
      | Inr deaths_gdf' \<Rightarrow>
     (case reproject E pumps_gdf of
        Inl e \<Rightarrow> Inl e
      | Inr pumps_gdf' \<Rightarrow> Inr (deaths_gdf', pumps_gdf')))))"

text \<open>
  \<open>load_data\<close> (lines 27-44) returns the elements it emitted and the pair it returns
  to the script. Any exception of the body leads to the \<open>except\<close> branch, which
  shows the text of the exception and returns \<open>None, None\<close>.
\<close>

definition load_data :: "env \<Rightarrow> element list \<times> gdf option \<times> gdf option" where
  "load_data E =
     (case load_body E of
        Inr (deaths_gdf, pumps_gdf) \<Rightarrow> ([], Some deaths_gdf, Some pumps_gdf)
      | Inl e \<Rightarrow> ([Error (''Error loading data: '' @ e)], None, None))"

subsection \<open>The centre of the map (lines 50-51)\<close>

text \<open>
  \<open>deaths_gdf.geometry.y\<close> and \<open>.x\<close> are geopandas' accessors of a whole geometry column.
  They raise ValueError when the column holds a geometry that is present and is not a
  point; otherwise they give the coordinate of every point, and NaN (\<open>None\<close>) for every
  missing geometry.
\<close>

fun series_y :: "row list \<Rightarrow> exn + real option list" where
  "series_y [] = Inr []"
| "series_y (r # rs) =
     (case geometry r of
        Point x y \<Rightarrow> (case series_y rs of Inl e \<Rightarrow> Inl e | Inr ys \<Rightarrow> Inr (Some y # ys))
      | NullGeom \<Rightarrow> (case series_y rs of Inl e \<Rightarrow> Inl e | Inr ys \<Rightarrow> Inr (None # ys))
      | _ \<Rightarrow> Inl ValueError)"

fun series_x :: "row list \<Rightarrow> exn + real option list" where
  "series_x [] = Inr []"
| "series_x (r # rs) =
     (case geometry r of
        Point x y \<Rightarrow> (case series_x rs of Inl e \<Rightarrow> Inl e | Inr xs \<Rightarrow> Inr (Some x # xs))
      | NullGeom \<Rightarrow> (case series_x rs of Inl e \<Rightarrow> Inl e | Inr xs \<Rightarrow> Inr (None # xs))
      | _ \<Rightarrow> Inl ValueError)"

text \<open>
  pandas' \<open>Series.mean()\<close>: NaN entries are left out, and the result is the arithmetic
  mean of the others; it is NaN (\<open>None\<close>) when there is none, as for an empty series.
\<close>

definition mean :: "real option list \<Rightarrow> real option" where
  "mean vs =
     (let present = List.map_filter (\<lambda>v. v) vs
      in if present = [] then None else Some (sum_list present / real (length present)))"

definition center_of :: "row list \<Rightarrow> exn + (real option \<times> real option)" where
  "center_of rs =
     (case series_y rs of
        Inl e \<Rightarrow> Inl e
      | Inr ys \<Rightarrow>
     (case series_x rs of
        Inl e \<Rightarrow> Inl e
      | Inr xs \<Rightarrow> Inr (mean ys, mean xs)))"

subsection \<open>The sidebar controls (lines 54-63)\<close>

definition controls :: "element list" where
  "controls =
     [SidebarHeader ''Dashboard Controls'',
      SidebarSubheader ''Map Layers'',
      Checkbox ''Show Heatmap'' True,
      Checkbox ''Show Skeleton Markers'' True,
      Checkbox ''Show Pump Labels'' True,
      SidebarSubheader ''Heatmap Settings'',
      IntSlider ''Heatmap Radius'' 10 30 15,
      IntSlider ''Heatmap Blur'' 5 20 10,
      FloatSlider ''Heatmap Opacity'' 0.1 1.0 0.6]"

subsection \<open>Composing the map (lines 66-144)\<close>

text \<open>
  \<open>folium.Map\<close> validates its location: a coordinate that is NaN raises ValueError
  (``Location values cannot contain NaNs'').
\<close>

definition folium_Map :: "real option \<times> real option \<Rightarrow> exn + folium_map" where
  "folium_Map loc =
     (case loc of
        (Some lat, Some lon) \<Rightarrow> Inr \<lparr>location = (lat, lon), zoom_start = 17, children = []\<rparr>
      | _ \<Rightarrow> Inl ValueError)"

text \<open>\<open>layer.add_to(m)\<close> appends the layer to the children of the map.\<close>

definition add_to :: "layer \<Rightarrow> folium_map \<Rightarrow> folium_map" where
  "add_to l m = m\<lparr>children := children m @ [l]\<rparr>"

text \<open>
  The geometry access of lines 78-81, written three times in the script with the same
  text: the attributes \<open>x\<close> and \<open>y\<close> when the geometry has both, else the first entry of
  its coordinate sequence. The result is (lat, lon). An empty sequence raises IndexError
  at \<open>coords[0]\<close>; a geometry with neither raises at \<open>.coords\<close>.
\<close>

fun resolve_point :: "geom \<Rightarrow> exn + (real \<times> real)" where
  "resolve_point (Point x y) = Inr (y, x)"
| "resolve_point (CoordSeq []) = Inl IndexError"
| "resolve_point (CoordSeq (c # cs)) = Inr (snd c, fst c)"
| "resolve_point NoPointShape = Inl NotImplementedError"
| "resolve_point NullGeom = Inl AttributeError"

text \<open>
  Line 83: the cell of the row when the row has the key, whatever the cell holds, and 1
  when it has not.
\<close>

definition weight :: "row \<Rightarrow> pynum" where
  "weight r = (case Count r of Some v \<Rightarrow> v | None \<Rightarrow> Num 1)"

text \<open>The loop of lines 77-84, with \<open>heat_data\<close> as the accumulator.\<close>

fun heat_loop ::
  "row list \<Rightarrow> (real \<times> real \<times> pynum) list \<Rightarrow> exn + (real \<times> real \<times> pynum) list" where
  "heat_loop [] heat_data = Inr heat_data"
| "heat_loop (r # rs) heat_data =
     (case resolve_point (geometry r) of
        Inl e \<Rightarrow> Inl e
      | Inr (lat, lon) \<Rightarrow> heat_loop rs (heat_data @ [(lat, lon, weight r)]))"

text \<open>Decimal text of a number, as an f-string writes it.\<close>

definition digit :: "nat \<Rightarrow> char" where
  "digit d = ''0123456789'' ! d"

function str_nat :: "nat \<Rightarrow> string" where
  "str_nat n = (if n < 10 then [digit n] else str_nat (n div 10) @ [digit (n mod 10)])"
  by pat_completeness auto
termination
  by (relation "measure id") auto

declare str_nat.simps [simp del]

definition str_int :: "int \<Rightarrow> string" where
  "str_int i = (if i < 0 then ''-'' @ str_nat (nat (- i)) else str_nat (nat i))"

text \<open>
  The text of a count cell. (In a column that holds a NULL, pandas keeps the integers as
  floats, and their text then ends in \<open>.0\<close>; the model writes them as integers.)
\<close>

fun str_num :: "pynum \<Rightarrow> string" where
  "str_num (Num i) = str_int i"
| "str_num NaN = ''nan''"

text \<open>Lines 103-105.\<close>

definition death_popup :: "nat \<Rightarrow> row \<Rightarrow> string" where
  "death_popup idx r =
     ''<b>Cholera Death #'' @ str_nat (idx + 1) @ ''</b>'' @
     (case Count r of Some v \<Rightarrow> ''<br>Count: '' @ str_num v | None \<Rightarrow> [])"

definition death_marker :: "nat \<Rightarrow> row \<Rightarrow> real \<times> real \<Rightarrow> layer" where
  "death_marker idx r loc =
     Marker loc (Some (death_popup idx r)) (Some (''Cholera Death '' @ str_nat (idx + 1))) DeathIcon"

text \<open>The loop of lines 97-116; \<open>idx\<close> is the index of the first row of the list.\<close>

fun skeleton_loop :: "nat \<Rightarrow> row list \<Rightarrow> folium_map \<Rightarrow> exn + folium_map" where
  "skeleton_loop idx [] m = Inr m"
| "skeleton_loop idx (r # rs) m =
     (case resolve_point (geometry r) of
        Inl e \<Rightarrow> Inl e
      | Inr loc \<Rightarrow> skeleton_loop (idx + 1) rs (add_to (death_marker idx r loc) m))"

definition pump_marker :: "nat \<Rightarrow> real \<times> real \<Rightarrow> layer" where
  "pump_marker idx loc =
     Marker loc (Some (''<b>Water Pump #'' @ str_nat (idx + 1) @ ''</b>''))
       (Some (''Water Pump '' @ str_nat (idx + 1))) PumpIcon"

definition pump_label :: "nat \<Rightarrow> real \<times> real \<Rightarrow> layer" where
  "pump_label idx loc = Marker loc None None (LabelIcon (''Pump '' @ str_nat (idx + 1)))"

text \<open>The loop of lines 119-141.\<close>

fun pump_loop :: "bool \<Rightarrow> nat \<Rightarrow> row list \<Rightarrow> folium_map \<Rightarrow> exn + folium_map" where
  "pump_loop labels idx [] m = Inr m"
| "pump_loop labels idx (r # rs) m =
     (case resolve_point (geometry r) of
        Inl e \<Rightarrow> Inl e
      | Inr loc \<Rightarrow>
          (let m1 = add_to (pump_marker idx loc) m;
               m2 = (if labels then add_to (pump_label idx loc) m1 else m1)
           in pump_loop labels (idx + 1) rs m2))"

text \<open>
  \<open>HeatMap(heat_data, ...)\<close> (lines 86-93) validates its data: it raises ValueError when
  an entry holds a NaN (``data may not contain NaNs''). Latitudes and longitudes are
  numbers here, so only a weight can be NaN.
\<close>

definition folium_HeatMap ::
  "(real \<times> real \<times> pynum) list \<Rightarrow> real \<Rightarrow> real \<Rightarrow> int \<Rightarrow> int \<Rightarrow> exn + layer" where
  "folium_HeatMap heat_data min_opacity max_opacity radius blur =
     (if list_ex (\<lambda>(lat, lon, w). w = NaN) heat_data then Inl ValueError
      else Inr (HeatMap heat_data min_opacity max_opacity radius blur))"

text \<open>Lines 75-93.\<close>

definition add_heatmap :: "selections \<Rightarrow> row list \<Rightarrow> folium_map \<Rightarrow> exn + folium_map" where
  "add_heatmap sel deaths m =
     (if show_heatmap sel then
        (case heat_loop deaths [] of
           Inl e \<Rightarrow> Inl e
         | Inr heat_data \<Rightarrow>
             (case folium_HeatMap heat_data 0.3 (heatmap_opacity sel) (heatmap_radius sel)
                     (heatmap_blur sel) of
                Inl e \<Rightarrow> Inl e
              | Inr heatmap \<Rightarrow> Inr (add_to heatmap m)))
      else Inr m)"

text \<open>Lines 96-116.\<close>

definition add_skeletons :: "selections \<Rightarrow> row list \<Rightarrow> folium_map \<Rightarrow> exn + folium_map" where
  "add_skeletons sel deaths m = (if show_skeletons sel then skeleton_loop 0 deaths m else Inr m)"

text \<open>Lines 66-144: the map object after the layer control has been added.\<close>

definition compose_map ::
  "selections \<Rightarrow> row list \<Rightarrow> row list \<Rightarrow> real option \<times> real option \<Rightarrow> exn + folium_map" where
  "compose_map sel deaths pumps center =
     (case folium_Map center of
        Inl e \<Rightarrow> Inl e
      | Inr m0 \<Rightarrow>
     (case add_heatmap sel deaths m0 of
        Inl e \<Rightarrow> Inl e
      | Inr m1 \<Rightarrow>
     (case add_skeletons sel deaths m1 of
        Inl e \<Rightarrow> Inl e
      | Inr m2 \<Rightarrow>
     (case pump_loop (show_pump_labels sel) 0 pumps m2 of
        Inl e \<Rightarrow> Inl e
      | Inr m3 \<Rightarrow> Inr (add_to LayerControl m3)))))"

subsection \<open>The page (lines 18-23 and 46-195)\<close>

text \<open>The right column (lines 158-177).\<close>

definition stats_panel :: "gdf \<Rightarrow> gdf \<Rightarrow> element list" where
  "stats_panel deaths_gdf pumps_gdf =
     [Subheader ''Outbreak Statistics'',
      Metric ''Total Cholera Deaths'' (length (rows deaths_gdf)),
      Metric ''Water Pumps'' (length (rows pumps_gdf)),
      Subheader ''Legend'', LegendText,
      Subheader ''Historical Context'', HistoryText]"

definition header :: "element list" where
  "header = [Title, Intro]"

text \<open>Lines 183-195.\<close>

definition footer :: "element list" where
  "footer = [SidebarRule, SidebarAbout]"

text \<open>The branch of line 48 when both layers are present (lines 49-177).\<close>

definition dashboard :: "selections \<Rightarrow> gdf \<Rightarrow> gdf \<Rightarrow> outcome" where
  "dashboard sel deaths_gdf pumps_gdf =
     (case center_of (rows deaths_gdf) of
        Inl e \<Rightarrow> \<lparr>page = [], crashed = Some e\<rparr>
      | Inr center \<Rightarrow>
     (case compose_map sel (rows deaths_gdf) (rows pumps_gdf) center of
        Inl e \<Rightarrow> \<lparr>page = controls, crashed = Some e\<rparr>
      | Inr m \<Rightarrow>
          \<lparr>page = controls @ [MapHtml m] @ stats_panel deaths_gdf pumps_gdf, crashed = None\<rparr>))"

text \<open>
  The whole script. The footer is reached only when nothing before it raised.
\<close>

definition run :: "env \<Rightarrow> selections \<Rightarrow> outcome" where
  "run E sel =
     (case load_data E of
        (shown, Some deaths_gdf, Some pumps_gdf) \<Rightarrow>
          (let out = dashboard sel deaths_gdf pumps_gdf
           in \<lparr>page = header @ shown @ page out @ (if crashed out = None then footer else []),
               crashed = crashed out\<rparr>)
      | (shown, _, _) \<Rightarrow>
          \<lparr>page = header @ shown @
                  [Error ''Could not load the data. Please check if the data folder exists.''] @
                  footer,
           crashed = None\<rparr>)"

section \<open>Vocabulary of the properties\<close>

text \<open>
  The definitions below are not part of the script: they name what the properties of
  the script speak about.
\<close>

subsection \<open>Geometries that resolve\<close>

text \<open>
  \<open>resolvable g\<close>: the geometry access of the loops succeeds on \<open>g\<close>; \<open>latlon g\<close> is then
  the (lat, lon) it gives. \<open>is_point g\<close>: \<open>g\<close> has the attributes \<open>x\<close> and \<open>y\<close>.
  \<open>point_or_missing g\<close>: \<open>g\<close> is a point or is missing, which is what the column
  accessors of lines 50-51 accept. \<open>point_rows rs\<close> are the rows that are points, and
  \<open>counted rs\<close> says that no weight of \<open>rs\<close> is NaN.
\<close>

definition latlon :: "geom \<Rightarrow> real \<times> real" where
  "latlon g = projr (resolve_point g)"

definition resolvable :: "geom \<Rightarrow> bool" where
  "resolvable g = (\<not> isl (resolve_point g))"

fun is_point :: "geom \<Rightarrow> bool" where
  "is_point (Point x y) = True"
| "is_point g = False"

definition all_points :: "row list \<Rightarrow> bool" where
  "all_points rs = list_all (\<lambda>r. is_point (geometry r)) rs"

definition all_resolvable :: "row list \<Rightarrow> bool" where
  "all_resolvable rs = list_all (\<lambda>r. resolvable (geometry r)) rs"

fun point_or_missing :: "geom \<Rightarrow> bool" where
  "point_or_missing (Point x y) = True"
| "point_or_missing NullGeom = True"
| "point_or_missing g = False"

definition accessible :: "row list \<Rightarrow> bool" where
  "accessible rs = list_all (\<lambda>r. point_or_missing (geometry r)) rs"

definition point_rows :: "row list \<Rightarrow> row list" where
  "point_rows rs = filter (\<lambda>r. is_point (geometry r)) rs"

definition counted :: "row list \<Rightarrow> bool" where
  "counted rs = list_all (\<lambda>r. weight r \<noteq> NaN) rs"

subsection \<open>The layers a record contributes\<close>

text \<open>
  The heatmap triple of a death record, the marker of the death record at index
  \<open>fst ir\<close>, and the marker of a pump followed by its label when labels are enabled.
\<close>

definition heat_entry :: "row \<Rightarrow> real \<times> real \<times> pynum" where
  "heat_entry r = (fst (latlon (geometry r)), snd (latlon (geometry r)), weight r)"

definition pump_entry :: "bool \<Rightarrow> nat \<times> row \<Rightarrow> layer list" where
  "pump_entry labels ir =
     pump_marker (fst ir) (latlon (geometry (snd ir))) #
     (if labels then [pump_label (fst ir) (latlon (geometry (snd ir)))] else [])"

definition death_entry :: "nat \<times> row \<Rightarrow> layer" where
  "death_entry ir = death_marker (fst ir) (snd ir) (latlon (geometry (snd ir)))"

subsection \<open>Runs\<close>

text \<open>
  \<open>loads E d p\<close>: the \<open>try\<close> of \<open>load_data\<close> succeeds with the layers \<open>d\<close> and \<open>p\<close>.
  \<open>renders sel d p\<close> collects what the script needs to reach its last line with the
  selection \<open>sel\<close>: every death geometry is a point or is missing, and at least one is a
  point (lines 50-51 and 66); when the heatmap or the death markers are enabled, every
  death record is a point (lines 78-81, 98-101); when the heatmap is enabled, no weight
  is NaN (line 86); and the geometry of every pump record resolves (lines 120-123).
  \<open>rendered_map out\<close> is the map embedded in the page, if the page has one.
\<close>

definition loads :: "env \<Rightarrow> gdf \<Rightarrow> gdf \<Rightarrow> bool" where
  "loads E d p = (load_body E = Inr (d, p))"

text \<open>\<open>composes sel ds ps\<close>: no loop and no \<open>HeatMap\<close> raises while the map is composed.\<close>

definition composes :: "selections \<Rightarrow> row list \<Rightarrow> row list \<Rightarrow> bool" where
  "composes sel ds ps =
     ((show_heatmap sel \<longrightarrow> all_resolvable ds \<and> counted ds) \<and>
      (show_skeletons sel \<longrightarrow> all_resolvable ds) \<and>
      all_resolvable ps)"

definition renders :: "selections \<Rightarrow> gdf \<Rightarrow> gdf \<Rightarrow> bool" where
  "renders sel d p =
     (accessible (rows d) \<and> point_rows (rows d) \<noteq> [] \<and>
      (show_heatmap sel \<or> show_skeletons sel \<longrightarrow> all_points (rows d)) \<and>
      (show_heatmap sel \<longrightarrow> counted (rows d)) \<and>
      all_resolvable (rows p))"

fun find_map :: "element list \<Rightarrow> folium_map option" where
  "find_map [] = None"
| "find_map (MapHtml m # es) = Some m"
| "find_map (e # es) = find_map es"

definition rendered_map :: "outcome \<Rightarrow> folium_map option" where
  "rendered_map out = find_map (page out)"

text \<open>
  The map of a dataset that renders: centred at the average position of the death
  records that are points, with the heatmap (if enabled), the death markers (if
  enabled), the pump markers and labels, and the layer control, in this order.
\<close>

definition average :: "real list \<Rightarrow> real" where
  "average vs = sum_list vs / real (length vs)"

definition lats :: "row list \<Rightarrow> real list" where
  "lats rs = map (\<lambda>r. fst (latlon (geometry r))) rs"

definition lons :: "row list \<Rightarrow> real list" where
  "lons rs = map (\<lambda>r. snd (latlon (geometry r))) rs"

definition heat_part :: "selections \<Rightarrow> row list \<Rightarrow> layer list" where
  "heat_part sel deaths =
     (if show_heatmap sel
      then [HeatMap (map heat_entry deaths) 0.3 (heatmap_opacity sel) (heatmap_radius sel)
              (heatmap_blur sel)]
      else [])"

definition death_part :: "selections \<Rightarrow> row list \<Rightarrow> layer list" where
  "death_part sel deaths = (if show_skeletons sel then map death_entry (enumerate 0 deaths) else [])"

definition pump_part :: "selections \<Rightarrow> row list \<Rightarrow> layer list" where
  "pump_part sel pumps = concat (map (pump_entry (show_pump_labels sel)) (enumerate 0 pumps))"

definition the_map :: "selections \<Rightarrow> gdf \<Rightarrow> gdf \<Rightarrow> folium_map" where
  "the_map sel d p =
     \<lparr>location = (average (lats (point_rows (rows d))), average (lons (point_rows (rows d)))),
      zoom_start = 17,
      children = heat_part sel (rows d) @ death_part sel (rows d) @ pump_part sel (rows p) @
                 [LayerControl]\<rparr>"

subsection \<open>Kinds of layers and elements\<close>

fun is_heatmap :: "layer \<Rightarrow> bool" where
  "is_heatmap (HeatMap heat_data mo xo r b) = True"
| "is_heatmap l = False"

fun is_death_marker :: "layer \<Rightarrow> bool" where
  "is_death_marker (Marker loc popup tooltip DeathIcon) = True"
| "is_death_marker l = False"

fun is_pump_marker :: "layer \<Rightarrow> bool" where
  "is_pump_marker (Marker loc popup tooltip PumpIcon) = True"
| "is_pump_marker l = False"

fun is_error :: "element \<Rightarrow> bool" where
  "is_error (Error s) = True"
| "is_error e = False"

fun is_metric :: "element \<Rightarrow> bool" where
  "is_metric (Metric l n) = True"
| "is_metric e = False"


fun is_widget :: "element \<Rightarrow> bool" where
  "is_widget (Checkbox l v) = True"
| "is_widget (IntSlider l lo hi v) = True"
| "is_widget (FloatSlider l lo hi v) = True"
| "is_widget e = False"

text \<open>A page with the heatmap layer taken out of its map.\<close>

definition drop_heatmap :: "folium_map \<Rightarrow> folium_map" where
  "drop_heatmap m = m\<lparr>children := filter (\<lambda>l. \<not> is_heatmap l) (children m)\<rparr>"

fun drop_heatmap_el :: "element \<Rightarrow> element" where
  "drop_heatmap_el (MapHtml m) = MapHtml (drop_heatmap m)"
| "drop_heatmap_el e = e"

definition without_heatmap :: "outcome \<Rightarrow> outcome" where
  "without_heatmap out = out\<lparr>page := map drop_heatmap_el (page out)\<rparr>"

text \<open>\<open>in_target E g\<close>: the layer declares a reference system that equals EPSG:4326.\<close>

definition in_target :: "env \<Rightarrow> gdf \<Rightarrow> bool" where
  "in_target E g = (case crs g of None \<Rightarrow> False | Some c \<Rightarrow> \<not> crs_ne E c ''EPSG:4326'')"

subsection \<open>Concrete datasets\<close>

text \<open>
  \<open>disk deaths pumps\<close> is a dataset directory whose two layers read as given (a layer or
  the text of the exception), with a projection library that fails whenever it is called.
\<close>

definition disk :: "string + gdf \<Rightarrow> string + gdf \<Rightarrow> env" where
  "disk deaths pumps =
     \<lparr>read_file = (\<lambda>path layer.
        if path = ''Data/cholera-deaths'' \<and> layer = ''Cholera_Deaths'' then deaths
        else if path = ''Data/cholera-deaths'' \<and> layer = ''Pumps'' then pumps
        else Inl ''no such layer''),
      crs_ne = (\<lambda>c s. c \<noteq> s),
      to_crs = (\<lambda>g s. Inl ''cannot transform'')\<rparr>"

definition soho_deaths :: gdf where
  "soho_deaths =
     \<lparr>crs = Some ''EPSG:4326'',
      rows = [\<lparr>geometry = Point (-1) 51, Count = Some (Num 3)\<rparr>,
              \<lparr>geometry = Point (-3) 53, Count = Some (Num 1)\<rparr>]\<rparr>"

text \<open>The second record has no count value (NULL) in a layer that has the column.\<close>

definition null_count_deaths :: gdf where
  "null_count_deaths =
     \<lparr>crs = Some ''EPSG:4326'',
      rows = [\<lparr>geometry = Point (-1) 51, Count = Some (Num 3)\<rparr>,
              \<lparr>geometry = Point (-3) 53, Count = Some NaN\<rparr>]\<rparr>"

text \<open>
  The second record has its position in the coordinate-sequence shape (a line that
  starts at the position).
\<close>

definition line_deaths :: gdf where
  "line_deaths =
     \<lparr>crs = Some ''EPSG:4326'',
      rows = [\<lparr>geometry = Point (-1) 51, Count = Some (Num 3)\<rparr>,
              \<lparr>geometry = CoordSeq [(-3, 53), (-2, 54)], Count = Some (Num 1)\<rparr>]\<rparr>"

text \<open>The second record has no geometry.\<close>

definition partly_located_deaths :: gdf where
  "partly_located_deaths =
     \<lparr>crs = Some ''EPSG:4326'',
      rows = [\<lparr>geometry = Point (-1) 51, Count = Some (Num 3)\<rparr>,
              \<lparr>geometry = NullGeom, Count = Some (Num 2)\<rparr>,
              \<lparr>geometry = Point (-3) 53, Count = Some (Num 1)\<rparr>]\<rparr>"

text \<open>A layer without a \<open>Count\<close> column.\<close>

definition uncounted_deaths :: gdf where
  "uncounted_deaths =
     \<lparr>crs = None,
      rows = [\<lparr>geometry = Point (-1) 51, Count = None\<rparr>,
              \<lparr>geometry = Point (-3) 53, Count = None\<rparr>]\<rparr>"

definition no_deaths :: gdf where
  "no_deaths = \<lparr>crs = Some ''EPSG:4326'', rows = []\<rparr>"

definition soho_pumps :: gdf where
  "soho_pumps =
     \<lparr>crs = Some ''EPSG:4326'',
      rows = [\<lparr>geometry = Point (-2) 52, Count = None\<rparr>,
              \<lparr>geometry = CoordSeq [(-4, 54)], Count = None\<rparr>]\<rparr>"


text \<open>The default values of the six widgets.\<close>

definition defaults :: selections where
  "defaults =
     \<lparr>show_heatmap = True, show_skeletons = True, show_pump_labels = True,
      heatmap_radius = 15, heatmap_blur = 10, heatmap_opacity = 0.6\<rparr>"

section \<open>Properties\<close>

subsection \<open>The geometry access and the loops\<close>

lemma latlon_simps [simp]:
  "latlon (Point x y) = (y, x)"
  "latlon (CoordSeq (c # cs)) = (snd c, fst c)"
  by (simp_all add: latlon_def)

lemma resolvable_simps [simp]:
  "resolvable (Point x y)"
  "resolvable (CoordSeq (c # cs))"
  "\<not> resolvable (CoordSeq [])"
  "\<not> resolvable NoPointShape"
  "\<not> resolvable NullGeom"
  by (simp_all add: resolvable_def)

lemma resolve_point_latlon: "resolvable g \<Longrightarrow> resolve_point g = Inr (latlon g)"
  by (cases "resolve_point g") (simp_all add: resolvable_def latlon_def)

lemma resolve_point_fails: "\<not> resolvable g \<Longrightarrow> \<exists>e. resolve_point g = Inl e"
  by (cases "resolve_point g") (simp_all add: resolvable_def)

lemma is_point_resolvable: "is_point g \<Longrightarrow> resolvable g"
  by (cases g) simp_all

lemma all_points_resolvable: "all_points rs \<Longrightarrow> all_resolvable rs"
  by (induction rs) (simp_all add: all_points_def all_resolvable_def is_point_resolvable)

lemma all_points_accessible: "all_points rs \<Longrightarrow> accessible rs"
proof (induction rs)
  case Nil
  show ?case by (simp add: accessible_def)
next
  case (Cons r rs)
  then show ?case by (cases "geometry r") (simp_all add: all_points_def accessible_def)
qed

lemma all_points_point_rows: "all_points rs \<Longrightarrow> point_rows rs = rs"
  by (induction rs) (simp_all add: all_points_def point_rows_def)

lemma accessible_resolvable_points: "accessible rs \<Longrightarrow> all_resolvable rs \<Longrightarrow> all_points rs"
proof (induction rs)
  case Nil
  show ?case by (simp add: all_points_def)
next
  case (Cons r rs)
  then show ?case
    by (cases "geometry r") (simp_all add: all_points_def accessible_def all_resolvable_def)
qed

lemma series_y_accessible:
  "accessible rs \<Longrightarrow>
   series_y rs =
     Inr (map (\<lambda>r. if is_point (geometry r) then Some (fst (latlon (geometry r))) else None) rs)"
proof (induction rs)
  case Nil
  show ?case by simp
next
  case (Cons r rs)
  then show ?case by (cases "geometry r") (simp_all add: accessible_def)
qed

lemma series_x_accessible:
  "accessible rs \<Longrightarrow>
   series_x rs =
     Inr (map (\<lambda>r. if is_point (geometry r) then Some (snd (latlon (geometry r))) else None) rs)"
proof (induction rs)
  case Nil
  show ?case by simp
next
  case (Cons r rs)
  then show ?case by (cases "geometry r") (simp_all add: accessible_def)
qed

lemma series_y_not_accessible: "\<not> accessible rs \<Longrightarrow> series_y rs = Inl ValueError"
proof (induction rs)
  case Nil
  then show ?case by (simp add: accessible_def)
next
  case (Cons r rs)
  then show ?case by (cases "geometry r") (auto simp: accessible_def split: sum.splits)
qed

lemma present_values:
  "List.map_filter (\<lambda>v. v) (map (\<lambda>r. if is_point (geometry r) then Some (f r) else None) rs) =
     map f (point_rows rs)"
  by (induction rs) (simp_all add: point_rows_def map_filter_simps)

lemma mean_series:
  "mean (map (\<lambda>r. if is_point (geometry r) then Some (f r) else None) rs) =
     (if point_rows rs = [] then None else Some (average (map f (point_rows rs))))"
  by (simp add: mean_def present_values average_def Let_def)

lemma center_of_accessible:
  "accessible rs \<Longrightarrow>
   center_of rs =
     Inr (if point_rows rs = [] then (None, None)
          else (Some (average (lats (point_rows rs))), Some (average (lons (point_rows rs)))))"
  by (simp add: center_of_def series_y_accessible series_x_accessible mean_series lats_def
      lons_def)

lemma center_of_not_accessible: "\<not> accessible rs \<Longrightarrow> center_of rs = Inl ValueError"
  by (simp add: center_of_def series_y_not_accessible)

lemma heat_loop_ok:
  "all_resolvable rs \<Longrightarrow> heat_loop rs acc = Inr (acc @ map heat_entry rs)"
proof (induction rs arbitrary: acc)
  case Nil
  show ?case by simp
next
  case (Cons r rs)
  from Cons.prems have r: "resolvable (geometry r)" and rs: "all_resolvable rs"
    by (simp_all add: all_resolvable_def)
  show ?case
    using Cons.IH [OF rs] resolve_point_latlon [OF r]
    by (simp add: heat_entry_def split: prod.splits)
qed

lemma heat_loop_fails: "\<not> all_resolvable rs \<Longrightarrow> \<exists>e. heat_loop rs acc = Inl e"
proof (induction rs arbitrary: acc)
  case Nil
  then show ?case by (simp add: all_resolvable_def)
next
  case (Cons r rs)
  show ?case
  proof (cases "resolvable (geometry r)")
    case True
    with Cons.prems have "\<not> all_resolvable rs" by (simp add: all_resolvable_def)
    from Cons.IH [OF this] resolve_point_latlon [OF True] show ?thesis
      by (simp split: prod.splits)
  next
    case False
    from resolve_point_fails [OF this] show ?thesis by auto
  qed
qed

lemma skeleton_loop_ok:
  "all_resolvable rs \<Longrightarrow>
   skeleton_loop idx rs m = Inr (m\<lparr>children := children m @ map death_entry (enumerate idx rs)\<rparr>)"
proof (induction rs arbitrary: idx m)
  case Nil
  show ?case by simp
next
  case (Cons r rs)
  from Cons.prems have r: "resolvable (geometry r)" and rs: "all_resolvable rs"
    by (simp_all add: all_resolvable_def)
  show ?case
    using Cons.IH [OF rs] resolve_point_latlon [OF r]
    by (simp add: death_entry_def add_to_def)
qed

lemma skeleton_loop_fails: "\<not> all_resolvable rs \<Longrightarrow> \<exists>e. skeleton_loop idx rs m = Inl e"
proof (induction rs arbitrary: idx m)
  case Nil
  then show ?case by (simp add: all_resolvable_def)
next
  case (Cons r rs)
  show ?case
  proof (cases "resolvable (geometry r)")
    case True
    with Cons.prems have "\<not> all_resolvable rs" by (simp add: all_resolvable_def)
    from Cons.IH [OF this] resolve_point_latlon [OF True] show ?thesis
      by simp
  next
    case False
    from resolve_point_fails [OF this] show ?thesis by auto
  qed
qed

lemma pump_loop_ok:
  "all_resolvable rs \<Longrightarrow>
   pump_loop labels idx rs m =
     Inr (m\<lparr>children := children m @ concat (map (pump_entry labels) (enumerate idx rs))\<rparr>)"
proof (induction rs arbitrary: idx m)
  case Nil
  show ?case by simp
next
  case (Cons r rs)
  from Cons.prems have r: "resolvable (geometry r)" and rs: "all_resolvable rs"
    by (simp_all add: all_resolvable_def)
  show ?case
    using Cons.IH [OF rs] resolve_point_latlon [OF r]
    by (simp add: pump_entry_def add_to_def Let_def)
qed

lemma pump_loop_fails:
  "\<not> all_resolvable rs \<Longrightarrow> \<exists>e. pump_loop labels idx rs m = Inl e"
proof (induction rs arbitrary: idx m)
  case Nil
  then show ?case by (simp add: all_resolvable_def)
next
  case (Cons r rs)
  show ?case
  proof (cases "resolvable (geometry r)")
    case True
    with Cons.prems have "\<not> all_resolvable rs" by (simp add: all_resolvable_def)
    from Cons.IH [OF this] resolve_point_latlon [OF True] show ?thesis
      by (simp add: Let_def)
  next
    case False
    from resolve_point_fails [OF this] show ?thesis by auto
  qed
qed

subsection \<open>The composed map\<close>

lemma nan_weight_iff: "list_ex (\<lambda>(lat, lon, w). w = NaN) (map heat_entry rs) \<longleftrightarrow> \<not> counted rs"
  by (induction rs) (simp_all add: counted_def heat_entry_def)

lemma folium_HeatMap_counted:
  "counted rs \<Longrightarrow>
   folium_HeatMap (map heat_entry rs) mo xo r b = Inr (HeatMap (map heat_entry rs) mo xo r b)"
  by (simp add: folium_HeatMap_def nan_weight_iff)

lemma folium_HeatMap_nan:
  "\<not> counted rs \<Longrightarrow> folium_HeatMap (map heat_entry rs) mo xo r b = Inl ValueError"
  by (simp add: folium_HeatMap_def nan_weight_iff)

lemma add_heatmap_ok:
  assumes "show_heatmap sel \<longrightarrow> all_resolvable ds \<and> counted ds"
  shows "add_heatmap sel ds m = Inr (m\<lparr>children := children m @ heat_part sel ds\<rparr>)"
proof (cases "show_heatmap sel")
  case True
  with assms have "all_resolvable ds" "counted ds" by simp_all
  then show ?thesis
    using True
    by (simp add: add_heatmap_def heat_loop_ok folium_HeatMap_counted add_to_def heat_part_def)
next
  case False
  then show ?thesis by (simp add: add_heatmap_def heat_part_def)
qed

lemma add_heatmap_fails:
  assumes "show_heatmap sel" and "\<not> (all_resolvable ds \<and> counted ds)"
  shows "\<exists>e. add_heatmap sel ds m = Inl e"
proof (cases "all_resolvable ds")
  case True
  with assms(2) have "\<not> counted ds" by simp
  then show ?thesis
    using assms(1) True
    by (simp add: add_heatmap_def heat_loop_ok folium_HeatMap_nan)
next
  case False
  from heat_loop_fails [OF this, of "[]"] obtain e where "heat_loop ds [] = Inl e" by blast
  then show ?thesis
    using assms(1) by (simp add: add_heatmap_def)
qed

lemma add_skeletons_ok:
  assumes "show_skeletons sel \<longrightarrow> all_resolvable ds"
  shows "add_skeletons sel ds m = Inr (m\<lparr>children := children m @ death_part sel ds\<rparr>)"
  using assms
  by (cases "show_skeletons sel") (simp_all add: add_skeletons_def skeleton_loop_ok death_part_def)

lemma add_skeletons_fails:
  assumes "show_skeletons sel" and "\<not> all_resolvable ds"
  shows "\<exists>e. add_skeletons sel ds m = Inl e"
  using skeleton_loop_fails [OF assms(2), of 0 m] assms(1)
  by (simp add: add_skeletons_def)

lemma compose_map_ok:
  assumes "composes sel ds ps"
  shows "compose_map sel ds ps (Some lat, Some lon) =
           Inr \<lparr>location = (lat, lon), zoom_start = 17,
                children = heat_part sel ds @ death_part sel ds @ pump_part sel ps @
                           [LayerControl]\<rparr>"
proof -
  from assms have h: "show_heatmap sel \<longrightarrow> all_resolvable ds \<and> counted ds"
    and k: "show_skeletons sel \<longrightarrow> all_resolvable ds" and p: "all_resolvable ps"
    by (simp_all add: composes_def)
  show ?thesis
    by (simp add: compose_map_def folium_Map_def add_heatmap_ok [OF h] add_skeletons_ok [OF k]
        pump_loop_ok [OF p] add_to_def pump_part_def)
qed

lemma compose_map_fails:
  assumes "\<not> composes sel ds ps"
  shows "\<exists>e. compose_map sel ds ps c = Inl e"
proof (cases "folium_Map c")
  case (Inl e)
  then show ?thesis by (simp add: compose_map_def)
next
  case m0: (Inr m0)
  show ?thesis
  proof (cases "add_heatmap sel ds m0")
    case (Inl e)
    then show ?thesis by (simp add: compose_map_def m0)
  next
    case m1: (Inr m1)
    have h: "show_heatmap sel \<longrightarrow> all_resolvable ds \<and> counted ds"
    proof (rule ccontr)
      assume "\<not> (show_heatmap sel \<longrightarrow> all_resolvable ds \<and> counted ds)"
      then have "show_heatmap sel" "\<not> (all_resolvable ds \<and> counted ds)" by simp_all
      from add_heatmap_fails [OF this, of m0] m1 show False by simp
    qed
    show ?thesis
    proof (cases "add_skeletons sel ds m1")
      case (Inl e)
      then show ?thesis by (simp add: compose_map_def m0 m1)
    next
      case m2: (Inr m2)
      have k: "show_skeletons sel \<longrightarrow> all_resolvable ds"
      proof (rule ccontr)
        assume "\<not> (show_skeletons sel \<longrightarrow> all_resolvable ds)"
        then have "show_skeletons sel" "\<not> all_resolvable ds" by simp_all
        from add_skeletons_fails [OF this, of m1] m2 show False by simp
      qed
      from assms h k have "\<not> all_resolvable ps" by (simp add: composes_def)
      from pump_loop_fails [OF this, of "show_pump_labels sel" 0 m2]
      show ?thesis by (auto simp: compose_map_def m0 m1 m2)
    qed
  qed
qed

lemma compose_map_nan: "compose_map sel ds ps (None, None) = Inl ValueError"
  by (simp add: compose_map_def folium_Map_def)


lemma renders_iff:
  "renders sel d p \<longleftrightarrow>
     accessible (rows d) \<and> point_rows (rows d) \<noteq> [] \<and> composes sel (rows d) (rows p)"
  using accessible_resolvable_points [of "rows d"] all_points_resolvable [of "rows d"]
  by (auto simp: renders_def composes_def)

subsection \<open>The kinds of layers of a composed map\<close>

lemma death_part_count:
  "length (filter is_death_marker (map death_entry irs)) = length irs"
  by (induction irs) (simp_all add: death_entry_def death_marker_def)

lemma death_part_no_pump: "filter is_pump_marker (map death_entry irs) = []"
  by (induction irs) (simp_all add: death_entry_def death_marker_def)

lemma pump_part_count:
  "length (filter is_pump_marker (concat (map (pump_entry labels) irs))) = length irs"
  by (induction irs) (simp_all add: pump_entry_def pump_marker_def pump_label_def)

lemma pump_part_no_death:
  "filter is_death_marker (concat (map (pump_entry labels) irs)) = []"
  by (induction irs) (simp_all add: pump_entry_def pump_marker_def pump_label_def)

lemma the_map_death_markers:
  "length (filter is_death_marker (children (the_map sel d p))) =
     (if show_skeletons sel then length (rows d) else 0)"
  by (simp add: the_map_def heat_part_def death_part_def pump_part_def death_part_count
      pump_part_no_death del: filter_map length_filter_map)

lemma the_map_pump_markers:
  "length (filter is_pump_marker (children (the_map sel d p))) = length (rows p)"
  by (simp add: the_map_def heat_part_def death_part_def pump_part_def death_part_no_pump
      pump_part_count del: filter_map length_filter_map)





lemma filter_death_part: "filter (\<lambda>l. \<not> is_heatmap l) (map death_entry irs) = map death_entry irs"
  by (induction irs) (simp_all add: death_entry_def death_marker_def)

lemma filter_pump_part:
  "filter (\<lambda>l. \<not> is_heatmap l) (concat (map (pump_entry labels) irs)) =
     concat (map (pump_entry labels) irs)"
  by (induction irs) (simp_all add: pump_entry_def pump_marker_def pump_label_def)

lemma the_map_heatmap:
  "show_heatmap sel \<Longrightarrow>
   hd (children (the_map sel d p)) =
     HeatMap (map heat_entry (rows d)) 0.3 (heatmap_opacity sel) (heatmap_radius sel)
       (heatmap_blur sel)"
  by (simp add: the_map_def heat_part_def)

subsection \<open>The page of a run\<close>

text \<open>
  A run ends in one of five ways: the load fails (two error messages, no crash); a death
  geometry is present and is not a point (crash at the centre, before the controls); no
  death record is a point (crash at \<open>folium.Map\<close>, after the controls); a loop or
  \<open>HeatMap\<close> raises (crash while the map is composed, after the controls); or the whole
  page is rendered.
\<close>

lemma dashboard_ok:
  assumes "renders sel d p"
  shows "dashboard sel d p =
           \<lparr>page = controls @ [MapHtml (the_map sel d p)] @ stats_panel d p, crashed = None\<rparr>"
proof -
  from assms have a: "accessible (rows d)" and n: "point_rows (rows d) \<noteq> []"
    and c: "composes sel (rows d) (rows p)"
    by (simp_all add: renders_iff)
  show ?thesis
    by (simp add: dashboard_def center_of_accessible [OF a] n compose_map_ok [OF c] the_map_def)
qed

lemma dashboard_not_accessible:
  "\<not> accessible (rows d) \<Longrightarrow> dashboard sel d p = \<lparr>page = [], crashed = Some ValueError\<rparr>"
  by (simp add: dashboard_def center_of_not_accessible)

lemma dashboard_no_points:
  "accessible (rows d) \<Longrightarrow> point_rows (rows d) = [] \<Longrightarrow>
   dashboard sel d p = \<lparr>page = controls, crashed = Some ValueError\<rparr>"
  by (simp add: dashboard_def center_of_accessible compose_map_nan)

lemma dashboard_compose_fails:
  assumes "accessible (rows d)" and "\<not> composes sel (rows d) (rows p)"
  shows "\<exists>e. dashboard sel d p = \<lparr>page = controls, crashed = Some e\<rparr>"
proof -
  obtain c where c: "center_of (rows d) = Inr c"
    using center_of_accessible [OF assms(1)] by simp
  obtain e where "compose_map sel (rows d) (rows p) c = Inl e"
    using compose_map_fails [OF assms(2)] by blast
  with c show ?thesis by (simp add: dashboard_def)
qed

lemma dashboard_accessible_crash:
  assumes "accessible (rows d)" and "\<not> renders sel d p"
  shows "\<exists>e. dashboard sel d p = \<lparr>page = controls, crashed = Some e\<rparr>"
proof (cases "point_rows (rows d) = []")
  case True
  with assms(1) show ?thesis by (simp add: dashboard_no_points)
next
  case False
  with assms have "\<not> composes sel (rows d) (rows p)" by (simp add: renders_iff)
  with assms(1) show ?thesis by (rule dashboard_compose_fails)
qed

lemma dashboard_crash:
  assumes "\<not> renders sel d p"
  shows "\<exists>e. dashboard sel d p = \<lparr>page = [], crashed = Some e\<rparr> \<or>
             dashboard sel d p = \<lparr>page = controls, crashed = Some e\<rparr>"
proof (cases "accessible (rows d)")
  case False
  then show ?thesis by (auto simp: dashboard_not_accessible)
next
  case True
  from dashboard_accessible_crash [OF True assms] show ?thesis by blast
qed

lemma find_map_controls [simp]: "find_map (controls @ es) = find_map es"
  by (simp add: controls_def)

lemma find_map_header [simp]: "find_map (header @ es) = find_map es"
  by (simp add: header_def)

lemma load_data_ok: "loads E d p \<Longrightarrow> load_data E = ([], Some d, Some p)"
  by (simp add: loads_def load_data_def)

lemma load_data_failed:
  "load_body E = Inl e \<Longrightarrow> load_data E = ([Error (''Error loading data: '' @ e)], None, None)"
  by (simp add: load_data_def)

lemma loads_unique: "loads E d p \<Longrightarrow> loads E d' p' \<Longrightarrow> d' = d \<and> p' = p"
  by (simp add: loads_def)

lemma run_loaded:
  assumes "loads E d p"
  shows "run E sel =
           \<lparr>page = header @ page (dashboard sel d p) @
                   (if crashed (dashboard sel d p) = None then footer else []),
            crashed = crashed (dashboard sel d p)\<rparr>"
  by (simp add: run_def load_data_ok [OF assms] Let_def)

lemma run_ok:
  assumes "loads E d p" and "renders sel d p"
  shows "run E sel =
           \<lparr>page = header @ controls @ [MapHtml (the_map sel d p)] @ stats_panel d p @ footer,
            crashed = None\<rparr>"
  by (simp add: run_loaded [OF assms(1)] dashboard_ok [OF assms(2)])

lemma run_crash:
  assumes "loads E d p" and "\<not> renders sel d p"
  shows "\<exists>e. run E sel = \<lparr>page = header, crashed = Some e\<rparr> \<or>
             run E sel = \<lparr>page = header @ controls, crashed = Some e\<rparr>"
  using dashboard_crash [OF assms(2)]
  by (auto simp: run_loaded [OF assms(1)])

lemma run_failed:
  assumes "load_body E = Inl e"
  shows "run E sel =
           \<lparr>page = header @
              [Error (''Error loading data: '' @ e),
               Error ''Could not load the data. Please check if the data folder exists.''] @
              footer,
            crashed = None\<rparr>"
  by (simp add: run_def load_data_failed [OF assms])

lemma rendered_map_ok:
  "loads E d p \<Longrightarrow> renders sel d p \<Longrightarrow> rendered_map (run E sel) = Some (the_map sel d p)"
  by (simp add: rendered_map_def run_ok)

lemma run_crash_page:
  assumes "loads E d p" and "\<not> renders sel d p"
  shows "crashed (run E sel) \<noteq> None \<and> rendered_map (run E sel) = None \<and>
         filter is_metric (page (run E sel)) = [] \<and> SidebarAbout \<notin> set (page (run E sel))"
proof -
  from run_crash [OF assms] obtain e where
    "run E sel = \<lparr>page = header, crashed = Some e\<rparr> \<or>
     run E sel = \<lparr>page = header @ controls, crashed = Some e\<rparr>" by blast
  then show ?thesis
    by (auto simp: rendered_map_def header_def controls_def)
qed

lemma rendered_map_crash:
  "loads E d p \<Longrightarrow> \<not> renders sel d p \<Longrightarrow> rendered_map (run E sel) = None"
  by (simp add: run_crash_page)

lemma rendered_map_failed: "load_body E = Inl e \<Longrightarrow> rendered_map (run E sel) = None"
  by (simp add: rendered_map_def run_failed footer_def)

lemma rendered_map_SomeD:
  assumes "rendered_map (run E sel) = Some m"
  shows "\<exists>d p. loads E d p \<and> renders sel d p \<and> m = the_map sel d p"
proof (cases "load_body E")
  case (Inl e)
  with assms show ?thesis by (simp add: rendered_map_failed)
next
  case (Inr dp)
  then have l: "loads E (fst dp) (snd dp)" by (simp add: loads_def)
  show ?thesis
  proof (cases "renders sel (fst dp) (snd dp)")
    case True
    with l assms show ?thesis by (auto simp: rendered_map_ok)
  next
    case False
    with l assms show ?thesis by (simp add: rendered_map_crash)
  qed
qed

lemma completed_run:
  assumes "loads E d p" and "crashed (run E sel) = None"
  shows "renders sel d p"
proof (rule ccontr)
  assume "\<not> renders sel d p"
  from run_crash_page [OF assms(1) this, of ] assms(2) show False by simp
qed

subsection \<open>The concrete datasets\<close>

lemma loads_disk:
  "reproject (disk (Inr d) (Inr p)) d = Inr d \<Longrightarrow> reproject (disk (Inr d) (Inr p)) p = Inr p \<Longrightarrow>
   loads (disk (Inr d) (Inr p)) d p"
  by (simp add: loads_def load_body_def shapefile_path_def disk_def)

lemma loads_soho: "loads (disk (Inr soho_deaths) (Inr soho_pumps)) soho_deaths soho_pumps"
  by (rule loads_disk) (simp_all add: reproject_def disk_def soho_deaths_def soho_pumps_def)

lemma loads_uncounted:
  "loads (disk (Inr uncounted_deaths) (Inr soho_pumps)) uncounted_deaths soho_pumps"
  by (rule loads_disk) (simp_all add: reproject_def disk_def uncounted_deaths_def soho_pumps_def)

lemma loads_null_count:
  "loads (disk (Inr null_count_deaths) (Inr soho_pumps)) null_count_deaths soho_pumps"
  by (rule loads_disk) (simp_all add: reproject_def disk_def null_count_deaths_def soho_pumps_def)

lemma loads_line: "loads (disk (Inr line_deaths) (Inr soho_pumps)) line_deaths soho_pumps"
  by (rule loads_disk) (simp_all add: reproject_def disk_def line_deaths_def soho_pumps_def)

lemma loads_partly_located:
  "loads (disk (Inr partly_located_deaths) (Inr soho_pumps)) partly_located_deaths soho_pumps"
  by (rule loads_disk)
    (simp_all add: reproject_def disk_def partly_located_deaths_def soho_pumps_def)

lemma renders_partly_located:
  "renders sel partly_located_deaths soho_pumps \<longleftrightarrow> \<not> show_heatmap sel \<and> \<not> show_skeletons sel"
  by (auto simp: renders_def accessible_def point_rows_def all_points_def counted_def weight_def
      all_resolvable_def partly_located_deaths_def soho_pumps_def)

lemma loads_no_deaths: "loads (disk (Inr no_deaths) (Inr soho_pumps)) no_deaths soho_pumps"
  by (rule loads_disk) (simp_all add: reproject_def disk_def no_deaths_def soho_pumps_def)


lemma renders_soho: "renders sel soho_deaths soho_pumps"
  by (simp add: renders_def accessible_def point_rows_def all_points_def counted_def weight_def
      all_resolvable_def soho_deaths_def soho_pumps_def)

lemma renders_uncounted: "renders sel uncounted_deaths soho_pumps"
  by (simp add: renders_def accessible_def point_rows_def all_points_def counted_def weight_def
      all_resolvable_def uncounted_deaths_def soho_pumps_def)

lemma renders_null_count:
  "renders sel null_count_deaths soho_pumps \<longleftrightarrow> \<not> show_heatmap sel"
  by (simp add: renders_def accessible_def point_rows_def all_points_def counted_def weight_def
      all_resolvable_def null_count_deaths_def soho_pumps_def)

lemma load_body_missing_pumps:
  "load_body (disk (Inr soho_deaths) (Inl ''Layer not found'')) = Inl ''Layer not found''"
  by (simp add: load_body_def shapefile_path_def disk_def)

lemma load_body_missing_path:
  "load_body (disk (Inl ''No such file'') (Inl ''No such file'')) = Inl ''No such file''"
  by (simp add: load_body_def shapefile_path_def disk_def)

lemma run_null_count_heatmap:
  assumes "show_heatmap sel"
  shows "run (disk (Inr null_count_deaths) (Inr soho_pumps)) sel =
           \<lparr>page = [Title, Intro] @ controls, crashed = Some ValueError\<rparr>"
proof -
  have a: "accessible (rows null_count_deaths)"
    by (simp add: accessible_def null_count_deaths_def)
  have r: "all_resolvable (rows null_count_deaths)"
    by (simp add: all_resolvable_def null_count_deaths_def)
  have n: "\<not> counted (rows null_count_deaths)"
    by (simp add: counted_def weight_def null_count_deaths_def)
  have p: "point_rows (rows null_count_deaths) \<noteq> []"
    by (simp add: point_rows_def null_count_deaths_def)
  have "add_heatmap sel (rows null_count_deaths) m = Inl ValueError" for m
    using assms by (simp add: add_heatmap_def heat_loop_ok [OF r] folium_HeatMap_nan [OF n])
  then have "compose_map sel (rows null_count_deaths) (rows soho_pumps) (Some lat, Some lon) =
      Inl ValueError" for lat lon
    by (simp add: compose_map_def folium_Map_def)
  then have "dashboard sel null_count_deaths soho_pumps =
      \<lparr>page = controls, crashed = Some ValueError\<rparr>"
    by (simp add: dashboard_def center_of_accessible [OF a] p)
  then show ?thesis
    by (simp add: run_loaded [OF loads_null_count] header_def)
qed

subsection \<open>C1: a failed load\<close>

text \<open>
  C1, as amended. When the body of the \<open>try\<close> raises an exception with text \<open>e\<close> (a
  missing path, a missing layer, an unreadable format, whichever layer it concerns),
  \<open>load_data\<close> returns \<open>None, None\<close>: both layers are discarded together. The page then
  consists of the title, the introduction, two error messages (the first is ``Error
  loading data: '' followed by \<open>e\<close>, the second the fixed ``Could not load the data''
  message) and the sidebar ``about'' text; it holds no map, hence no marker.
\<close>

theorem load_failure_discards_both_layers:
  assumes "load_body E = Inl e"
  shows "snd (load_data E) = (None, None) \<and>
         run E sel =
           \<lparr>page = [Title, Intro,
                    Error (''Error loading data: '' @ e),
                    Error ''Could not load the data. Please check if the data folder exists.'',
                    SidebarRule, SidebarAbout],
            crashed = None\<rparr> \<and>
         rendered_map (run E sel) = None"
proof (intro conjI)
  show "snd (load_data E) = (None, None)"
    by (simp add: load_data_failed [OF assms])
  show "run E sel =
           \<lparr>page = [Title, Intro,
                    Error (''Error loading data: '' @ e),
                    Error ''Could not load the data. Please check if the data folder exists.'',
                    SidebarRule, SidebarAbout],
            crashed = None\<rparr>"
    by (simp add: run_failed [OF assms] header_def footer_def)
  show "rendered_map (run E sel) = None"
    by (rule rendered_map_failed [OF assms])
qed

text \<open>
  An instance: the deaths layer reads well and the pumps layer is missing. Nothing of the
  deaths layer is shown.
\<close>

theorem load_failure_discards_both_layers_witness:
  "load_body (disk (Inr soho_deaths) (Inl ''Layer not found'')) = Inl ''Layer not found'' \<and>
   snd (load_data (disk (Inr soho_deaths) (Inl ''Layer not found''))) = (None, None) \<and>
   page (run (disk (Inr soho_deaths) (Inl ''Layer not found'')) defaults) =
     [Title, Intro,
      Error ''Error loading data: Layer not found'',
      Error ''Could not load the data. Please check if the data folder exists.'',
      SidebarRule, SidebarAbout] \<and>
   rendered_map (run (disk (Inr soho_deaths) (Inl ''Layer not found'')) defaults) = None"
proof -
  note t = load_failure_discards_both_layers [OF load_body_missing_pumps, of defaults]
  from t have "page (run (disk (Inr soho_deaths) (Inl ''Layer not found'')) defaults) =
     [Title, Intro,
      Error ''Error loading data: Layer not found'',
      Error ''Could not load the data. Please check if the data folder exists.'',
      SidebarRule, SidebarAbout]"
    by simp
  with t load_body_missing_pumps show ?thesis by blast
qed

text \<open>
  C1 as stated asks for a single error message. With a missing dataset path the page
  shows two: the one of the \<open>except\<close> branch (line 43) and the one of the \<open>else\<close> branch
  (line 180).
\<close>

theorem single_error_message_counterexample:
  "filter is_error (page (run (disk (Inl ''No such file'') (Inl ''No such file'')) defaults)) =
     [Error ''Error loading data: No such file'',
      Error ''Could not load the data. Please check if the data folder exists.''] \<and>
   length (filter is_error
     (page (run (disk (Inl ''No such file'') (Inl ''No such file'')) defaults))) = 2"
  by (simp add: run_failed [OF load_body_missing_path] header_def footer_def)

subsection \<open>C2: one marker per record\<close>

text \<open>Where a map is rendered, the markers are one per record.\<close>

lemma rendered_marker_counts:
  assumes "loads E d p" and "rendered_map (run E sel) = Some m"
  shows "length (filter is_pump_marker (children m)) = length (rows p) \<and>
         (show_skeletons sel \<longrightarrow> length (filter is_death_marker (children m)) = length (rows d))"
proof -
  from rendered_map_SomeD [OF assms(2)] obtain d' p' where
    dp: "loads E d' p'" "m = the_map sel d' p'" by blast
  from loads_unique [OF assms(1) dp(1)] dp(2) have "m = the_map sel d p" by simp
  then show ?thesis by (simp add: the_map_death_markers the_map_pump_markers)
qed

lemma not_accessibleI:
  "r \<in> set rs \<Longrightarrow> \<not> point_or_missing (geometry r) \<Longrightarrow> \<not> accessible rs"
  by (auto simp: accessible_def list_all_iff)

text \<open>
  C2 asks for one death marker per death record and one pump marker per pump record on
  every valid input dataset. A death record whose position comes in the
  coordinate-sequence shape is valid input: the geometry access of the loops resolves
  it. The column accessors of lines 50-51 take points only, so with such a record the
  run ends with ValueError before the sidebar and the page has no map: no death marker
  and no pump marker is rendered, whatever the toggles.
\<close>

theorem fallback_shaped_death_aborts_render:
  assumes "loads E d p" and "r \<in> set (rows d)" and "geometry r = CoordSeq (c # cs)"
  shows "resolve_point (geometry r) = Inr (snd c, fst c) \<and>
         run E sel = \<lparr>page = [Title, Intro], crashed = Some ValueError\<rparr> \<and>
         rendered_map (run E sel) = None"
proof -
  have g: "resolve_point (geometry r) = Inr (snd c, fst c)"
    by (simp add: assms(3))
  have "\<not> point_or_missing (geometry r)"
    by (simp add: assms(3))
  with assms(2) have na: "\<not> accessible (rows d)" by (rule not_accessibleI)
  have r: "run E sel = \<lparr>page = [Title, Intro], crashed = Some ValueError\<rparr>"
    by (simp add: run_loaded [OF assms(1)] dashboard_not_accessible [OF na] header_def)
  have "rendered_map \<lparr>page = [Title, Intro], crashed = Some ValueError\<rparr> = None"
    by (simp add: rendered_map_def)
  with g r show ?thesis by simp
qed

text \<open>
  An instance: two death records, the second in the coordinate-sequence shape, and two
  pumps, all toggles enabled.
\<close>

theorem fallback_shaped_death_aborts_render_witness:
  "length (rows line_deaths) = 2 \<and> length (rows soho_pumps) = 2 \<and>
   resolve_point (geometry (rows line_deaths ! 1)) = Inr (53, - 3) \<and>
   run (disk (Inr line_deaths) (Inr soho_pumps)) defaults =
     \<lparr>page = [Title, Intro], crashed = Some ValueError\<rparr> \<and>
   rendered_map (run (disk (Inr line_deaths) (Inr soho_pumps)) defaults) = None"
proof -
  let ?r = "\<lparr>geometry = CoordSeq [(- 3, 53), (- 2, 54)], Count = Some (Num 1)\<rparr>"
  have n: "length (rows line_deaths) = 2" "length (rows soho_pumps) = 2"
    by (simp_all add: line_deaths_def soho_pumps_def)
  have i: "?r \<in> set (rows line_deaths)" "geometry ?r = CoordSeq ((- 3, 53) # [(- 2, 54)])"
    by (simp_all add: line_deaths_def)
  have g: "resolve_point (geometry (rows line_deaths ! 1)) = Inr (53, - 3)"
    by (simp add: line_deaths_def)
  from fallback_shaped_death_aborts_render [OF loads_line i(1,2), of defaults] n g
  show ?thesis by blast
qed

subsection \<open>C3: heatmap weights\<close>

lemma heat_loop_InrD:
  assumes "heat_loop rs [] = Inr heat_data"
  shows "heat_data = map heat_entry rs"
proof (cases "all_resolvable rs")
  case True
  from heat_loop_ok [OF True, of "[]"] assms show ?thesis by simp
next
  case False
  from heat_loop_fails [OF False, of "[]"] assms show ?thesis by auto
qed

lemma heat_entry_weight:
  "snd (snd (heat_entry r)) = (case Count r of Some v \<Rightarrow> v | None \<Rightarrow> Num 1)"
  by (simp add: heat_entry_def weight_def)

lemma renders_heat_loop:
  assumes "renders sel d p" and "show_heatmap sel"
  shows "heat_loop (rows d) [] = Inr (map heat_entry (rows d))"
proof -
  from assms have "all_points (rows d)" by (simp add: renders_def)
  then have "all_resolvable (rows d)" by (rule all_points_resolvable)
  from heat_loop_ok [OF this, of "[]"] show ?thesis by simp
qed

text \<open>
  C3. Whenever the loop of lines 77-84 completes, the data it has built has one entry per
  death record, in order, and the weight of the entry of a record is the value of its
  \<open>Count\<close> cell as it is (NaN when the cell is NULL), with no scaling, and exactly 1 when
  the record has no \<open>Count\<close> attribute. When the dataset renders with the heatmap
  enabled, the first layer of the rendered map is the heatmap over exactly that data;
  and every rendered map with the heatmap enabled is of this form.
\<close>

theorem heat_weight_is_raw_count:
  assumes "loads E d p"
  shows "(\<forall>heat_data. heat_loop (rows d) [] = Inr heat_data \<longrightarrow>
            length heat_data = length (rows d) \<and>
            (\<forall>i < length (rows d).
               snd (snd (heat_data ! i)) =
                 (case Count (rows d ! i) of Some v \<Rightarrow> v | None \<Rightarrow> Num 1))) \<and>
         (renders sel d p \<and> show_heatmap sel \<longrightarrow>
            (\<exists>m heat_data mo xo r b.
               rendered_map (run E sel) = Some m \<and>
               hd (children m) = HeatMap heat_data mo xo r b \<and>
               heat_loop (rows d) [] = Inr heat_data)) \<and>
         (\<forall>m. rendered_map (run E sel) = Some m \<and> show_heatmap sel \<longrightarrow>
            (\<exists>heat_data mo xo r b.
               hd (children m) = HeatMap heat_data mo xo r b \<and>
               heat_loop (rows d) [] = Inr heat_data))"
proof -
  have A: "length heat_data = length (rows d) \<and>
      (\<forall>i < length (rows d).
         snd (snd (heat_data ! i)) =
           (case Count (rows d ! i) of Some v \<Rightarrow> v | None \<Rightarrow> Num 1))"
    if "heat_loop (rows d) [] = Inr heat_data" for heat_data
  proof -
    from that have h: "heat_data = map heat_entry (rows d)" by (rule heat_loop_InrD)
    show ?thesis by (simp add: h heat_entry_weight)
  qed
  have B: "\<exists>m heat_data mo xo r b.
      rendered_map (run E sel) = Some m \<and>
      hd (children m) = HeatMap heat_data mo xo r b \<and>
      heat_loop (rows d) [] = Inr heat_data"
    if "renders sel d p \<and> show_heatmap sel"
  proof -
    from that have r: "renders sel d p" and s: "show_heatmap sel" by simp_all
    from rendered_map_ok [OF assms r] the_map_heatmap [OF s, of d p] renders_heat_loop [OF r s]
    show ?thesis by blast
  qed
  have C: "\<exists>heat_data mo xo r b.
      hd (children m) = HeatMap heat_data mo xo r b \<and>
      heat_loop (rows d) [] = Inr heat_data"
    if "rendered_map (run E sel) = Some m \<and> show_heatmap sel" for m
  proof -
    from that have s: "show_heatmap sel" by simp
    from that rendered_map_SomeD [of E sel m] obtain d' p' where
      dp: "loads E d' p'" "renders sel d' p'" "m = the_map sel d' p'" by blast
    from loads_unique [OF assms dp(1)] have e: "d' = d" "p' = p" by simp_all
    from dp(2) e have r: "renders sel d p" by simp
    from dp(3) e the_map_heatmap [OF s, of d p] renders_heat_loop [OF r s]
    show ?thesis by blast
  qed
  from A B C show ?thesis by blast
qed

text \<open>
  Three instances, all toggles enabled. A layer without a \<open>Count\<close> column renders with
  both weights 1. A layer with the column renders with the counts as weights. A layer
  with the column and a NULL cell hands NaN to \<open>HeatMap\<close> as the weight of that record,
  and \<open>HeatMap\<close> raises ValueError: no heatmap is rendered.
\<close>

theorem heat_weight_is_raw_count_witness:
  "(\<exists>m mo xo r b.
      rendered_map (run (disk (Inr uncounted_deaths) (Inr soho_pumps)) defaults) = Some m \<and>
      hd (children m) = HeatMap [(51, - 1, Num 1), (53, - 3, Num 1)] mo xo r b) \<and>
   (\<exists>m mo xo r b.
      rendered_map (run (disk (Inr soho_deaths) (Inr soho_pumps)) defaults) = Some m \<and>
      hd (children m) = HeatMap [(51, - 1, Num 3), (53, - 3, Num 1)] mo xo r b) \<and>
   snd (snd (map heat_entry (rows null_count_deaths) ! 1)) = NaN \<and>
   heat_loop (rows null_count_deaths) [] = Inr [(51, - 1, Num 3), (53, - 3, NaN)] \<and>
   crashed (run (disk (Inr null_count_deaths) (Inr soho_pumps)) defaults) = Some ValueError"
proof -
  have s: "show_heatmap defaults" by (simp add: defaults_def)
  have u: "heat_loop (rows uncounted_deaths) [] = Inr [(51, - 1, Num 1), (53, - 3, Num 1)]"
    by (simp add: uncounted_deaths_def weight_def)
  have c: "heat_loop (rows soho_deaths) [] = Inr [(51, - 1, Num 3), (53, - 3, Num 1)]"
    by (simp add: soho_deaths_def weight_def)
  have n: "heat_loop (rows null_count_deaths) [] = Inr [(51, - 1, Num 3), (53, - 3, NaN)]"
    by (simp add: null_count_deaths_def weight_def)
  from heat_weight_is_raw_count [OF loads_uncounted, of defaults] renders_uncounted [of defaults] s
  obtain m heat_data mo xo r b where
    "rendered_map (run (disk (Inr uncounted_deaths) (Inr soho_pumps)) defaults) = Some m"
    "hd (children m) = HeatMap heat_data mo xo r b"
    "heat_loop (rows uncounted_deaths) [] = Inr heat_data"
    by blast
  with u have A: "\<exists>m mo xo r b.
      rendered_map (run (disk (Inr uncounted_deaths) (Inr soho_pumps)) defaults) = Some m \<and>
      hd (children m) = HeatMap [(51, - 1, Num 1), (53, - 3, Num 1)] mo xo r b"
    by auto
  from heat_weight_is_raw_count [OF loads_soho, of defaults] renders_soho [of defaults] s
  obtain m heat_data mo xo r b where
    "rendered_map (run (disk (Inr soho_deaths) (Inr soho_pumps)) defaults) = Some m"
    "hd (children m) = HeatMap heat_data mo xo r b"
    "heat_loop (rows soho_deaths) [] = Inr heat_data"
    by blast
  with c have B: "\<exists>m mo xo r b.
      rendered_map (run (disk (Inr soho_deaths) (Inr soho_pumps)) defaults) = Some m \<and>
      hd (children m) = HeatMap [(51, - 1, Num 3), (53, - 3, Num 1)] mo xo r b"
    by auto
  have l: "1 < length (rows null_count_deaths)" "Count (rows null_count_deaths ! 1) = Some NaN"
    by (simp_all add: null_count_deaths_def)
  from heat_weight_is_raw_count [OF loads_null_count, of defaults] heat_loop_InrD [OF n] l n
  have C: "snd (snd (map heat_entry (rows null_count_deaths) ! 1)) = NaN"
    by (simp add: heat_entry_weight)
  have D: "crashed (run (disk (Inr null_count_deaths) (Inr soho_pumps)) defaults) =
      Some ValueError"
    by (simp add: run_null_count_heatmap [OF s])
  from A B C D n show ?thesis by blast
qed

subsection \<open>C4: records without a point shape\<close>





subsection \<open>C5: layers already in EPSG:4326\<close>

lemma reproject_in_target: "in_target E g \<Longrightarrow> reproject E g = Inr g"
  by (simp add: in_target_def reproject_def split: option.splits)

text \<open>
  C5. When the load succeeds, a layer whose reference system already equals EPSG:4326 is
  returned exactly as it was read: the projection library is not called on it, so the
  geometry of every record is unchanged.
\<close>

theorem load_keeps_layers_in_target:
  assumes "loads E d' p'"
    and "read_file E shapefile_path ''Cholera_Deaths'' = Inr d"
    and "read_file E shapefile_path ''Pumps'' = Inr p"
  shows "(in_target E d \<longrightarrow> d' = d \<and> map geometry (rows d') = map geometry (rows d)) \<and>
         (in_target E p \<longrightarrow> p' = p \<and> map geometry (rows p') = map geometry (rows p))"
proof -
  from assms have b:
    "(case reproject E d of
        Inl e \<Rightarrow> Inl e
      | Inr deaths_gdf' \<Rightarrow>
          (case reproject E p of
             Inl e \<Rightarrow> Inl e
           | Inr pumps_gdf' \<Rightarrow> Inr (deaths_gdf', pumps_gdf'))) = Inr (d', p')"
    by (simp add: loads_def load_body_def)
  then have "reproject E d = Inr d'" "reproject E p = Inr p'"
    by (auto split: sum.splits)
  then show ?thesis
    by (auto simp: reproject_in_target)
qed

text \<open>
  An instance: both layers are in EPSG:4326, and the load succeeds although the
  projection library of this dataset fails on every call.
\<close>

theorem load_keeps_layers_in_target_witness:
  "loads (disk (Inr soho_deaths) (Inr soho_pumps)) soho_deaths soho_pumps \<and>
   in_target (disk (Inr soho_deaths) (Inr soho_pumps)) soho_deaths \<and>
   in_target (disk (Inr soho_deaths) (Inr soho_pumps)) soho_pumps \<and>
   map geometry (rows soho_deaths) = [Point (-1) 51, Point (-3) 53] \<and>
   map geometry (rows soho_pumps) = [Point (-2) 52, CoordSeq [(-4, 54)]]"
proof -
  have r: "read_file (disk (Inr soho_deaths) (Inr soho_pumps)) shapefile_path ''Cholera_Deaths'' =
        Inr soho_deaths"
      "read_file (disk (Inr soho_deaths) (Inr soho_pumps)) shapefile_path ''Pumps'' =
        Inr soho_pumps"
    by (simp_all add: disk_def shapefile_path_def)
  have t: "in_target (disk (Inr soho_deaths) (Inr soho_pumps)) soho_deaths"
      "in_target (disk (Inr soho_deaths) (Inr soho_pumps)) soho_pumps"
    by (simp_all add: in_target_def disk_def soho_deaths_def soho_pumps_def)
  have g: "map geometry (rows soho_deaths) = [Point (-1) 51, Point (-3) 53]"
      "map geometry (rows soho_pumps) = [Point (-2) 52, CoordSeq [(-4, 54)]]"
    by (simp_all add: soho_deaths_def soho_pumps_def)
  from load_keeps_layers_in_target [OF loads_soho r] t g loads_soho
  show ?thesis by blast
qed

subsection \<open>C6: the heatmap toggle\<close>

lemma children_without_heat:
  "filter (\<lambda>l. \<not> is_heatmap l) (death_part sel ds @ pump_part sel ps @ [LayerControl]) =
     death_part sel ds @ pump_part sel ps @ [LayerControl]"
  by (simp add: death_part_def pump_part_def filter_death_part filter_pump_part del: filter_map)

lemma the_map_on:
  "children (the_map (sel\<lparr>show_heatmap := True\<rparr>) d p) =
     HeatMap (map heat_entry (rows d)) 0.3 (heatmap_opacity sel) (heatmap_radius sel)
       (heatmap_blur sel) #
     children (the_map (sel\<lparr>show_heatmap := False\<rparr>) d p)"
  by (simp add: the_map_def heat_part_def death_part_def pump_part_def)

lemma the_map_off:
  "the_map (sel\<lparr>show_heatmap := False\<rparr>) d p = drop_heatmap (the_map (sel\<lparr>show_heatmap := True\<rparr>) d p)"
proof -
  have "children (the_map (sel\<lparr>show_heatmap := False\<rparr>) d p) =
      death_part sel (rows d) @ pump_part sel (rows p) @ [LayerControl]"
    by (simp add: the_map_def heat_part_def death_part_def pump_part_def)
  then have "filter (\<lambda>l. \<not> is_heatmap l) (children (the_map (sel\<lparr>show_heatmap := True\<rparr>) d p)) =
      children (the_map (sel\<lparr>show_heatmap := False\<rparr>) d p)"
    by (simp add: the_map_on children_without_heat del: filter_append)
  then show ?thesis
    by (simp add: drop_heatmap_def the_map_def)
qed

lemma drop_heatmap_static [simp]:
  "map drop_heatmap_el controls = controls"
  "map drop_heatmap_el header = header"
  "map drop_heatmap_el footer = footer"
  "map drop_heatmap_el (stats_panel d p) = stats_panel d p"
  by (simp_all add: controls_def header_def footer_def stats_panel_def)

lemma renders_toggle:
  "renders (sel\<lparr>show_heatmap := True\<rparr>) d p \<Longrightarrow> renders (sel\<lparr>show_heatmap := False\<rparr>) d p"
  by (simp add: renders_def)

text \<open>
  C6, as amended. For every dataset and every selection of the other options for which
  the run with ``Show Heatmap'' on completes, the run with it off is the run with it on,
  with the heatmap layer taken out of the map: the rest of the page is the same. When the
  dataset loads, the run with the heatmap on renders a map, and that map is one heatmap
  layer followed by exactly the layers of the map rendered with the heatmap off (death
  markers if enabled, pump markers, pump labels if enabled, layer control).
\<close>

theorem heatmap_toggle_removes_only_heatmap:
  assumes "crashed (run E (sel\<lparr>show_heatmap := True\<rparr>)) = None"
  shows "run E (sel\<lparr>show_heatmap := False\<rparr>) = without_heatmap (run E (sel\<lparr>show_heatmap := True\<rparr>)) \<and>
         (\<forall>d p. loads E d p \<longrightarrow>
            rendered_map (run E (sel\<lparr>show_heatmap := True\<rparr>)) =
              Some (the_map (sel\<lparr>show_heatmap := True\<rparr>) d p)) \<and>
         (\<forall>m. rendered_map (run E (sel\<lparr>show_heatmap := True\<rparr>)) = Some m \<longrightarrow>
            (\<exists>h. is_heatmap h \<and> children m = h # children (drop_heatmap m)) \<and>
            rendered_map (run E (sel\<lparr>show_heatmap := False\<rparr>)) = Some (drop_heatmap m))"
proof -
  let ?on = "sel\<lparr>show_heatmap := True\<rparr>" and ?off = "sel\<lparr>show_heatmap := False\<rparr>"
  have A: "run E ?off = without_heatmap (run E ?on)"
  proof (cases "load_body E")
    case (Inl e)
    then show ?thesis
      by (simp add: run_failed without_heatmap_def)
  next
    case (Inr dp)
    then have l: "loads E (fst dp) (snd dp)" by (simp add: loads_def)
    from completed_run [OF l assms] have on: "renders ?on (fst dp) (snd dp)" .
    then have off: "renders ?off (fst dp) (snd dp)" by (rule renders_toggle)
    show ?thesis
      by (simp add: run_ok [OF l on] run_ok [OF l off] without_heatmap_def the_map_off)
  qed
  have B: "rendered_map (run E ?on) = Some (the_map ?on d p)" if "loads E d p" for d p
    using rendered_map_ok [OF that completed_run [OF that assms]] .
  have C: "(\<exists>h. is_heatmap h \<and> children m = h # children (drop_heatmap m)) \<and>
      rendered_map (run E ?off) = Some (drop_heatmap m)"
    if a: "rendered_map (run E ?on) = Some m" for m
  proof -
    from rendered_map_SomeD [OF a] obtain d p where
      dp: "loads E d p" "renders ?on d p" "m = the_map ?on d p"
      by blast
    have off: "drop_heatmap m = the_map ?off d p"
      by (simp add: dp(3) the_map_off)
    have 1: "\<exists>h. is_heatmap h \<and> children m = h # children (drop_heatmap m)"
      unfolding off unfolding dp(3) the_map_on by simp
    have 2: "rendered_map (run E ?off) = Some (drop_heatmap m)"
      unfolding off by (rule rendered_map_ok [OF dp(1) renders_toggle [OF dp(2)]])
    from 1 2 show ?thesis by blast
  qed
  from A B C show ?thesis by blast
qed

text \<open>An instance: the default selection on two deaths and two pumps.\<close>

theorem heatmap_toggle_removes_only_heatmap_witness:
  "crashed (run (disk (Inr soho_deaths) (Inr soho_pumps)) defaults) = None \<and>
   rendered_map (run (disk (Inr soho_deaths) (Inr soho_pumps)) defaults) =
     Some (the_map defaults soho_deaths soho_pumps) \<and>
   rendered_map (run (disk (Inr soho_deaths) (Inr soho_pumps)) (defaults\<lparr>show_heatmap := False\<rparr>)) =
     Some (drop_heatmap (the_map defaults soho_deaths soho_pumps)) \<and>
   children (the_map defaults soho_deaths soho_pumps) =
     HeatMap [(51, -1, Num 3), (53, -3, Num 1)] 0.3 0.6 15 10 #
     children (drop_heatmap (the_map defaults soho_deaths soho_pumps))"
proof -
  have on: "defaults\<lparr>show_heatmap := True\<rparr> = defaults"
    by (simp add: defaults_def)
  have c: "crashed (run (disk (Inr soho_deaths) (Inr soho_pumps)) defaults) = None"
    by (simp add: run_ok [OF loads_soho renders_soho])
  note t = heatmap_toggle_removes_only_heatmap
    [of "disk (Inr soho_deaths) (Inr soho_pumps)" defaults, unfolded on, OF c]
  from t loads_soho
  have m: "rendered_map (run (disk (Inr soho_deaths) (Inr soho_pumps)) defaults) =
     Some (the_map defaults soho_deaths soho_pumps)"
    by blast
  from t m
  have off: "rendered_map (run (disk (Inr soho_deaths) (Inr soho_pumps))
        (defaults\<lparr>show_heatmap := False\<rparr>)) =
      Some (drop_heatmap (the_map defaults soho_deaths soho_pumps))"
    by blast
  have "children (the_map defaults soho_deaths soho_pumps) =
     HeatMap (map heat_entry (rows soho_deaths)) 0.3 (heatmap_opacity defaults)
       (heatmap_radius defaults) (heatmap_blur defaults) #
     children (the_map (defaults\<lparr>show_heatmap := False\<rparr>) soho_deaths soho_pumps)"
    using the_map_on [of defaults soho_deaths soho_pumps] by (simp add: on)
  moreover have "map heat_entry (rows soho_deaths) = [(51, -1, Num 3), (53, -3, Num 1)]"
    by (simp add: soho_deaths_def heat_entry_def weight_def)
  moreover have "heatmap_opacity defaults = 0.6" "heatmap_radius defaults = 15"
    "heatmap_blur defaults = 10"
    by (simp_all add: defaults_def)
  moreover have "the_map (defaults\<lparr>show_heatmap := False\<rparr>) soho_deaths soho_pumps =
      drop_heatmap (the_map defaults soho_deaths soho_pumps)"
    using the_map_off [of defaults soho_deaths soho_pumps] by (simp add: on)
  ultimately have "children (the_map defaults soho_deaths soho_pumps) =
     HeatMap [(51, -1, Num 3), (53, -3, Num 1)] 0.3 0.6 15 10 #
     children (drop_heatmap (the_map defaults soho_deaths soho_pumps))"
    by simp
  with c m off show ?thesis by blast
qed

text \<open>
  C6 as stated holds the pump and death markers unchanged for every loaded dataset. With
  a NULL count in the second of two death records, the run with the heatmap on ends with
  ValueError at \<open>HeatMap\<close> and renders no map, and the run with the heatmap off renders
  the map with two death markers and two pump markers: turning the heatmap off changes
  more than the density layer.
\<close>

theorem heatmap_toggle_counterexample:
  "crashed (run (disk (Inr null_count_deaths) (Inr soho_pumps))
      (defaults\<lparr>show_heatmap := True\<rparr>)) = Some ValueError \<and>
   rendered_map (run (disk (Inr null_count_deaths) (Inr soho_pumps))
      (defaults\<lparr>show_heatmap := True\<rparr>)) = None \<and>
   (\<exists>m. rendered_map (run (disk (Inr null_count_deaths) (Inr soho_pumps))
           (defaults\<lparr>show_heatmap := False\<rparr>)) = Some m \<and>
        length (filter is_death_marker (children m)) = 2 \<and>
        length (filter is_pump_marker (children m)) = 2) \<and>
   run (disk (Inr null_count_deaths) (Inr soho_pumps)) (defaults\<lparr>show_heatmap := False\<rparr>) \<noteq>
     without_heatmap
       (run (disk (Inr null_count_deaths) (Inr soho_pumps)) (defaults\<lparr>show_heatmap := True\<rparr>))"
proof -
  let ?E = "disk (Inr null_count_deaths) (Inr soho_pumps)"
  let ?on = "defaults\<lparr>show_heatmap := True\<rparr>" and ?off = "defaults\<lparr>show_heatmap := False\<rparr>"
  have on: "run ?E ?on = \<lparr>page = [Title, Intro] @ controls, crashed = Some ValueError\<rparr>"
    by (rule run_null_count_heatmap) simp
  have c: "crashed (run ?E ?on) = Some ValueError"
    by (simp add: on)
  have n: "rendered_map (run ?E ?on) = None"
    by (simp add: on rendered_map_def controls_def)
  have r: "renders ?off null_count_deaths soho_pumps"
    by (simp add: renders_null_count)
  have m: "rendered_map (run ?E ?off) = Some (the_map ?off null_count_deaths soho_pumps)"
    by (rule rendered_map_ok [OF loads_null_count r])
  have k: "show_skeletons ?off" by (simp add: defaults_def)
  have l: "length (rows null_count_deaths) = 2" "length (rows soho_pumps) = 2"
    by (simp_all add: null_count_deaths_def soho_pumps_def)
  have d: "length (filter is_death_marker (children (the_map ?off null_count_deaths soho_pumps))) = 2"
    using k l by (simp add: the_map_death_markers)
  have p: "length (filter is_pump_marker (children (the_map ?off null_count_deaths soho_pumps))) = 2"
    using l by (simp add: the_map_pump_markers)
  have "crashed (run ?E ?off) = None"
    by (simp add: run_ok [OF loads_null_count r])
  moreover have "crashed (without_heatmap (run ?E ?on)) = Some ValueError"
    by (simp add: on without_heatmap_def)
  ultimately have ne: "run ?E ?off \<noteq> without_heatmap (run ?E ?on)"
    by auto
  from c n m d p ne show ?thesis by blast
qed

subsection \<open>C7: the statistics panel and an empty deaths layer\<close>

lemma controls_no_metric: "filter is_metric controls = []"
  by (simp add: controls_def)

text \<open>
  C7 asks for the two counts of the statistics panel for every loaded dataset, also with
  zero records in either layer. With zero death records the script does not get there:
  the centre is (NaN, NaN), \<open>folium.Map\<close> raises ValueError, and the run ends after the
  sidebar controls, with no map and no \<open>st.metric\<close> on the page.
\<close>

theorem empty_deaths_layer_aborts_render:
  assumes "loads E d p" and "rows d = []"
  shows "center_of (rows d) = Inr (None, None) \<and>
         run E sel = \<lparr>page = [Title, Intro] @ controls, crashed = Some ValueError\<rparr> \<and>
         filter is_metric (page (run E sel)) = [] \<and>
         rendered_map (run E sel) = None"
proof -
  have c: "center_of (rows d) = Inr (None, None)"
    using assms(2) by (simp add: center_of_def mean_def map_filter_simps)
  have a: "accessible (rows d)" "point_rows (rows d) = []"
    using assms(2) by (simp_all add: accessible_def point_rows_def)
  have r: "run E sel = \<lparr>page = [Title, Intro] @ controls, crashed = Some ValueError\<rparr>"
    by (simp add: run_loaded [OF assms(1)] dashboard_no_points [OF a] header_def)
  have nr: "\<not> renders sel d p"
    using a(2) by (simp add: renders_def)
  have m: "filter is_metric (page (run E sel)) = []"
    unfolding r by (simp add: controls_no_metric)
  from c r m rendered_map_crash [OF assms(1) nr] show ?thesis by blast
qed

text \<open>An instance: no death record and two pumps.\<close>

theorem empty_deaths_layer_aborts_render_witness:
  "loads (disk (Inr no_deaths) (Inr soho_pumps)) no_deaths soho_pumps \<and>
   rows no_deaths = [] \<and>
   length (rows soho_pumps) = 2 \<and>
   crashed (run (disk (Inr no_deaths) (Inr soho_pumps)) defaults) = Some ValueError \<and>
   filter is_metric (page (run (disk (Inr no_deaths) (Inr soho_pumps)) defaults)) = []"
proof -
  have e: "rows no_deaths = []" by (simp add: no_deaths_def)
  have n: "length (rows soho_pumps) = 2" by (simp add: soho_pumps_def)
  note t = empty_deaths_layer_aborts_render [OF loads_no_deaths e, of defaults]
  from t have "crashed (run (disk (Inr no_deaths) (Inr soho_pumps)) defaults) = Some ValueError"
    by simp
  with t loads_no_deaths e n show ?thesis by blast
qed

subsection \<open>C8: the order of the layers\<close>

text \<open>
  C8. Whenever a map is rendered, its layers are, in the order in which they were added:
  the heatmap over the death records (if enabled), one marker per death record in record
  order (if enabled), then for each pump record in order its marker followed by its
  label (if labels are enabled), and last the layer control.
\<close>

theorem layers_in_fixed_order:
  assumes "rendered_map (run E sel) = Some m"
  shows "\<exists>d p. loads E d p \<and>
           children m =
             (if show_heatmap sel
              then [HeatMap (map heat_entry (rows d)) 0.3 (heatmap_opacity sel)
                      (heatmap_radius sel) (heatmap_blur sel)]
              else []) @
             (if show_skeletons sel then map death_entry (enumerate 0 (rows d)) else []) @
             concat (map (pump_entry (show_pump_labels sel)) (enumerate 0 (rows p))) @
             [LayerControl]"
proof -
  from rendered_map_SomeD [OF assms] obtain d p where
    dp: "loads E d p" "m = the_map sel d p" by blast
  have "children (the_map sel d p) =
             (if show_heatmap sel
              then [HeatMap (map heat_entry (rows d)) 0.3 (heatmap_opacity sel)
                      (heatmap_radius sel) (heatmap_blur sel)]
              else []) @
             (if show_skeletons sel then map death_entry (enumerate 0 (rows d)) else []) @
             concat (map (pump_entry (show_pump_labels sel)) (enumerate 0 (rows p))) @
             [LayerControl]"
    by (simp add: the_map_def heat_part_def death_part_def pump_part_def)
  with dp show ?thesis by blast
qed

text \<open>Decimal texts and indices of the instance below.\<close>

lemma str_nat_1: "str_nat (Suc 0) = ''1''"
  by (simp add: str_nat.simps digit_def)

lemma str_nat_2: "str_nat (Suc (Suc 0)) = ''2''"
  by (simp add: str_nat.simps [of "Suc (Suc 0)"] digit_def)

lemma str_int_3: "str_int 3 = ''3''"
  by (simp add: str_int_def str_nat.simps digit_def)

lemma str_int_1: "str_int 1 = ''1''"
  by (simp add: str_int_def str_nat.simps digit_def)

lemma enumerate_two: "enumerate 0 [a, b] = [(0, a), (1, b)]"
  by (simp add: enumerate_eq_zip upt_rec)

text \<open>An instance, with every layer written out.\<close>

theorem layers_in_fixed_order_witness:
  "\<exists>m. rendered_map (run (disk (Inr soho_deaths) (Inr soho_pumps)) defaults) = Some m \<and>
     children m =
       [HeatMap [(51, -1, Num 3), (53, -3, Num 1)] 0.3 0.6 15 10,
        Marker (51, -1) (Some ''<b>Cholera Death #1</b><br>Count: 3'')
          (Some ''Cholera Death 1'') DeathIcon,
        Marker (53, -3) (Some ''<b>Cholera Death #2</b><br>Count: 1'')
          (Some ''Cholera Death 2'') DeathIcon,
        Marker (52, -2) (Some ''<b>Water Pump #1</b>'') (Some ''Water Pump 1'') PumpIcon,
        Marker (52, -2) None None (LabelIcon ''Pump 1''),
        Marker (54, -4) (Some ''<b>Water Pump #2</b>'') (Some ''Water Pump 2'') PumpIcon,
        Marker (54, -4) None None (LabelIcon ''Pump 2''),
        LayerControl]"
proof -
  have m: "rendered_map (run (disk (Inr soho_deaths) (Inr soho_pumps)) defaults) =
      Some (the_map defaults soho_deaths soho_pumps)"
    by (rule rendered_map_ok [OF loads_soho renders_soho])
  have u: "d = soho_deaths \<and> p = soho_pumps"
    if "loads (disk (Inr soho_deaths) (Inr soho_pumps)) d p" for d p
    using that loads_soho by (simp add: loads_def)
  from layers_in_fixed_order [OF m] obtain d p where
    dp: "loads (disk (Inr soho_deaths) (Inr soho_pumps)) d p"
    and c: "children (the_map defaults soho_deaths soho_pumps) =
             (if show_heatmap defaults
              then [HeatMap (map heat_entry (rows d)) 0.3 (heatmap_opacity defaults)
                      (heatmap_radius defaults) (heatmap_blur defaults)]
              else []) @
             (if show_skeletons defaults then map death_entry (enumerate 0 (rows d)) else []) @
             concat (map (pump_entry (show_pump_labels defaults)) (enumerate 0 (rows p))) @
             [LayerControl]"
    by blast
  from u [OF dp] have d: "d = soho_deaths" and p: "p = soho_pumps" by simp_all
  have "children (the_map defaults soho_deaths soho_pumps) =
       [HeatMap [(51, -1, Num 3), (53, -3, Num 1)] 0.3 0.6 15 10,
        Marker (51, -1) (Some ''<b>Cholera Death #1</b><br>Count: 3'')
          (Some ''Cholera Death 1'') DeathIcon,
        Marker (53, -3) (Some ''<b>Cholera Death #2</b><br>Count: 1'')
          (Some ''Cholera Death 2'') DeathIcon,
        Marker (52, -2) (Some ''<b>Water Pump #1</b>'') (Some ''Water Pump 1'') PumpIcon,
        Marker (52, -2) None None (LabelIcon ''Pump 1''),
        Marker (54, -4) (Some ''<b>Water Pump #2</b>'') (Some ''Water Pump 2'') PumpIcon,
        Marker (54, -4) None None (LabelIcon ''Pump 2''),
        LayerControl]"
    unfolding c d p
    by (simp add: defaults_def soho_deaths_def soho_pumps_def enumerate_two heat_entry_def
        weight_def death_entry_def death_marker_def death_popup_def pump_entry_def
        pump_marker_def pump_label_def str_nat_1 str_nat_2 str_int_3 str_int_1)
  with m show ?thesis by blast
qed

subsection \<open>C9: the sidebar controls\<close>

lemma widgets_static [simp]:
  "filter is_widget header = []"
  "filter is_widget footer = []"
  "filter is_widget (stats_panel d p) = []"
  "filter is_widget controls =
     [Checkbox ''Show Heatmap'' True,
      Checkbox ''Show Skeleton Markers'' True,
      Checkbox ''Show Pump Labels'' True,
      IntSlider ''Heatmap Radius'' 10 30 15,
      IntSlider ''Heatmap Blur'' 5 20 10,
      FloatSlider ''Heatmap Opacity'' 0.1 1.0 0.6]"
  by (simp_all add: header_def footer_def stats_panel_def controls_def)

lemma dashboard_points_page:
  assumes "accessible (rows d)"
  shows "filter is_widget (page (dashboard sel d p)) = filter is_widget controls"
proof (cases "renders sel d p")
  case True
  then show ?thesis by (simp add: dashboard_ok)
next
  case False
  from dashboard_accessible_crash [OF assms this] show ?thesis by auto
qed

text \<open>
  C9. In every run that reaches the sidebar (the dataset loads and every death record is
  a point), the widgets of the page are exactly three checkboxes (heatmap, skeleton
  markers, pump labels; default on) and three sliders: radius 10 to 30 (default 15), blur
  5 to 20 (default 10), opacity 0.1 to 1.0 (default 0.6). The script does not check the
  values it gets back: the heatmap of a rendered map carries the selected opacity, radius
  and blur as they are.
\<close>

theorem sidebar_controls:
  assumes "loads E d p" and "all_points (rows d)"
  shows "filter is_widget (page (run E sel)) =
           [Checkbox ''Show Heatmap'' True,
            Checkbox ''Show Skeleton Markers'' True,
            Checkbox ''Show Pump Labels'' True,
            IntSlider ''Heatmap Radius'' 10 30 15,
            IntSlider ''Heatmap Blur'' 5 20 10,
            FloatSlider ''Heatmap Opacity'' 0.1 1.0 0.6] \<and>
         (\<forall>m. rendered_map (run E sel) = Some m \<and> show_heatmap sel \<longrightarrow>
            hd (children m) =
              HeatMap (map heat_entry (rows d)) 0.3 (heatmap_opacity sel) (heatmap_radius sel)
                (heatmap_blur sel))"
proof (intro conjI allI impI)
  show "filter is_widget (page (run E sel)) =
           [Checkbox ''Show Heatmap'' True,
            Checkbox ''Show Skeleton Markers'' True,
            Checkbox ''Show Pump Labels'' True,
            IntSlider ''Heatmap Radius'' 10 30 15,
            IntSlider ''Heatmap Blur'' 5 20 10,
            FloatSlider ''Heatmap Opacity'' 0.1 1.0 0.6]"
    by (simp add: run_loaded [OF assms(1)]
        dashboard_points_page [OF all_points_accessible [OF assms(2)]])
next
  fix m
  assume a: "rendered_map (run E sel) = Some m \<and> show_heatmap sel"
  with rendered_map_SomeD [of E sel m] obtain d' p' where
    dp: "loads E d' p'" "m = the_map sel d' p'" by blast
  from loads_unique [OF assms(1) dp(1)] have "d' = d" by simp
  with dp(2) a show "hd (children m) =
      HeatMap (map heat_entry (rows d)) 0.3 (heatmap_opacity sel) (heatmap_radius sel)
        (heatmap_blur sel)"
    by (simp add: the_map_def heat_part_def)
qed

text \<open>An instance: values outside the slider ranges reach the heatmap unchanged.\<close>

theorem sidebar_controls_witness:
  "length (filter is_widget (page (run (disk (Inr soho_deaths) (Inr soho_pumps))
      (defaults\<lparr>heatmap_radius := 1000, heatmap_blur := - 5, heatmap_opacity := 7\<rparr>)))) = 6 \<and>
   (\<exists>m. rendered_map (run (disk (Inr soho_deaths) (Inr soho_pumps))
           (defaults\<lparr>heatmap_radius := 1000, heatmap_blur := - 5, heatmap_opacity := 7\<rparr>)) =
         Some m \<and>
        hd (children m) = HeatMap (map heat_entry (rows soho_deaths)) 0.3 7 1000 (- 5))"
proof -
  let ?sel = "defaults\<lparr>heatmap_radius := 1000, heatmap_blur := - 5, heatmap_opacity := 7\<rparr>"
  have pts: "all_points (rows soho_deaths)"
    by (simp add: all_points_def soho_deaths_def)
  have s: "show_heatmap ?sel" "heatmap_opacity ?sel = 7" "heatmap_radius ?sel = 1000"
    "heatmap_blur ?sel = - 5"
    by (simp_all add: defaults_def)
  note t = sidebar_controls [OF loads_soho pts, of ?sel]
  have m: "rendered_map (run (disk (Inr soho_deaths) (Inr soho_pumps)) ?sel) =
      Some (the_map ?sel soho_deaths soho_pumps)"
    by (rule rendered_map_ok [OF loads_soho renders_soho])
  from t have n: "length (filter is_widget
      (page (run (disk (Inr soho_deaths) (Inr soho_pumps)) ?sel))) = 6"
    by simp
  from t m s(1) have "hd (children (the_map ?sel soho_deaths soho_pumps)) =
      HeatMap (map heat_entry (rows soho_deaths)) 0.3 (heatmap_opacity ?sel)
        (heatmap_radius ?sel) (heatmap_blur ?sel)"
    by blast
  then have "hd (children (the_map ?sel soho_deaths soho_pumps)) =
      HeatMap (map heat_entry (rows soho_deaths)) 0.3 7 1000 (- 5)"
    unfolding s(2-4) .
  with n m show ?thesis by blast
qed

subsection \<open>C10: the centre of the map\<close>

lemma point_rows_coordinates:
  "list_all (\<lambda>r. \<exists>x y. geometry r = Point x y \<and> latlon (geometry r) = (y, x)) (point_rows rs)"
proof (induction rs)
  case Nil
  show ?case by (simp add: point_rows_def)
next
  case (Cons r rs)
  then show ?case by (cases "geometry r") (simp_all add: point_rows_def)
qed

lemma the_map_location:
  "location (the_map sel d p) =
     (sum_list (lats (point_rows (rows d))) / real (length (point_rows (rows d))),
      sum_list (lons (point_rows (rows d))) / real (length (point_rows (rows d))))"
  by (simp add: the_map_def average_def lats_def lons_def)

text \<open>
  C10. Take a loaded dataset and its death records that are points (\<open>latlon\<close> of a point
  is its \<open>y\<close>, then its \<open>x\<close>); when every death record is a point, these are all the
  death records. When a death geometry is present and is not a point, the column
  accessors raise and there is no centre: the run ends with ValueError before the
  sidebar. Otherwise the centre is the pair of the arithmetic mean of the \<open>y\<close>
  coordinates and the arithmetic mean of the \<open>x\<close> coordinates of those records. When
  there is no such record, in particular when the deaths layer is empty, both components
  are NaN (\<open>None\<close>), and the run ends with ValueError at \<open>folium.Map\<close>, after the sidebar
  controls. When the dataset renders, the rendered map is located at the means; and a
  map is never rendered without a death record that is a point.
\<close>

theorem center_is_mean_of_deaths:
  assumes "loads E d p"
  shows "list_all (\<lambda>r. \<exists>x y. geometry r = Point x y \<and> latlon (geometry r) = (y, x))
           (point_rows (rows d)) \<and>
         (all_points (rows d) \<longrightarrow> point_rows (rows d) = rows d) \<and>
         (rows d = [] \<longrightarrow> point_rows (rows d) = []) \<and>
         (\<not> accessible (rows d) \<longrightarrow>
            center_of (rows d) = Inl ValueError \<and>
            run E sel = \<lparr>page = [Title, Intro], crashed = Some ValueError\<rparr>) \<and>
         (accessible (rows d) \<and> point_rows (rows d) = [] \<longrightarrow>
            center_of (rows d) = Inr (None, None) \<and>
            run E sel = \<lparr>page = [Title, Intro] @ controls, crashed = Some ValueError\<rparr>) \<and>
         (accessible (rows d) \<and> point_rows (rows d) \<noteq> [] \<longrightarrow>
            center_of (rows d) =
              Inr (Some (sum_list (lats (point_rows (rows d))) /
                         real (length (point_rows (rows d)))),
                   Some (sum_list (lons (point_rows (rows d))) /
                         real (length (point_rows (rows d)))))) \<and>
         (renders sel d p \<longrightarrow>
            (\<exists>m. rendered_map (run E sel) = Some m \<and>
               location m =
                 (sum_list (lats (point_rows (rows d))) / real (length (point_rows (rows d))),
                  sum_list (lons (point_rows (rows d))) / real (length (point_rows (rows d)))))) \<and>
         (\<forall>m. rendered_map (run E sel) = Some m \<longrightarrow>
            point_rows (rows d) \<noteq> [] \<and>
            location m =
              (sum_list (lats (point_rows (rows d))) / real (length (point_rows (rows d))),
               sum_list (lons (point_rows (rows d))) / real (length (point_rows (rows d)))))"
proof -
  have A: "list_all (\<lambda>r. \<exists>x y. geometry r = Point x y \<and> latlon (geometry r) = (y, x))
      (point_rows (rows d))"
    by (rule point_rows_coordinates)
  have B: "point_rows (rows d) = rows d" if "all_points (rows d)"
    using that by (rule all_points_point_rows)
  have C: "point_rows (rows d) = []" if "rows d = []"
    using that by (simp add: point_rows_def)
  have D: "center_of (rows d) = Inr (None, None) \<and>
      run E sel = \<lparr>page = [Title, Intro] @ controls, crashed = Some ValueError\<rparr>"
    if "accessible (rows d) \<and> point_rows (rows d) = []"
  proof -
    from that have a: "accessible (rows d)" and n: "point_rows (rows d) = []" by simp_all
    have c: "center_of (rows d) = Inr (None, None)"
      by (simp add: center_of_accessible [OF a] n)
    have r: "run E sel = \<lparr>page = [Title, Intro] @ controls, crashed = Some ValueError\<rparr>"
      by (simp add: run_loaded [OF assms] dashboard_no_points [OF a n] header_def)
    from c r show ?thesis by blast
  qed
  have N: "center_of (rows d) = Inl ValueError \<and>
      run E sel = \<lparr>page = [Title, Intro], crashed = Some ValueError\<rparr>"
    if na: "\<not> accessible (rows d)"
  proof -
    have c: "center_of (rows d) = Inl ValueError"
      by (rule center_of_not_accessible [OF na])
    have r: "run E sel = \<lparr>page = [Title, Intro], crashed = Some ValueError\<rparr>"
      by (simp add: run_loaded [OF assms] dashboard_not_accessible [OF na] header_def)
    from c r show ?thesis by blast
  qed
  have F: "center_of (rows d) =
      Inr (Some (sum_list (lats (point_rows (rows d))) / real (length (point_rows (rows d)))),
           Some (sum_list (lons (point_rows (rows d))) / real (length (point_rows (rows d)))))"
    if "accessible (rows d) \<and> point_rows (rows d) \<noteq> []"
    using that by (simp add: center_of_accessible average_def lats_def lons_def)
  have G: "\<exists>m. rendered_map (run E sel) = Some m \<and>
      location m =
        (sum_list (lats (point_rows (rows d))) / real (length (point_rows (rows d))),
         sum_list (lons (point_rows (rows d))) / real (length (point_rows (rows d))))"
    if "renders sel d p"
    using rendered_map_ok [OF assms that] the_map_location [of sel d p] by simp
  have H: "point_rows (rows d) \<noteq> [] \<and>
      location m =
        (sum_list (lats (point_rows (rows d))) / real (length (point_rows (rows d))),
         sum_list (lons (point_rows (rows d))) / real (length (point_rows (rows d))))"
    if a: "rendered_map (run E sel) = Some m" for m
  proof -
    from rendered_map_SomeD [OF a] obtain d' p' where
      dp: "loads E d' p'" "renders sel d' p'" "m = the_map sel d' p'" by blast
    from loads_unique [OF assms dp(1)] have e: "d' = d" "p' = p" by simp_all
    from dp(2) e have "point_rows (rows d) \<noteq> []" by (simp add: renders_def)
    moreover from dp(3) e have "m = the_map sel d p" by simp
    ultimately show ?thesis by (simp add: the_map_location)
  qed
  from A B C D N F G H show ?thesis by blast
qed

text \<open>
  Three instances. Two deaths and two pumps, all toggles enabled: the rendered map is
  located at the mean position (52, -2). An empty deaths layer: the centre is
  (NaN, NaN) and the run ends with ValueError after the controls. Three death records
  of which the second has no geometry, with both death layers disabled: the rendered map
  is located at the mean position of the other two.
\<close>

theorem center_is_mean_of_deaths_witness:
  "center_of (rows soho_deaths) = Inr (Some 52, Some (- 2)) \<and>
   (\<exists>m. rendered_map (run (disk (Inr soho_deaths) (Inr soho_pumps)) defaults) = Some m \<and>
      location m = (52, - 2)) \<and>
   center_of (rows no_deaths) = Inr (None, None) \<and>
   run (disk (Inr no_deaths) (Inr soho_pumps)) defaults =
     \<lparr>page = [Title, Intro] @ controls, crashed = Some ValueError\<rparr> \<and>
   (\<exists>m. rendered_map (run (disk (Inr partly_located_deaths) (Inr soho_pumps))
           (defaults\<lparr>show_heatmap := False, show_skeletons := False\<rparr>)) = Some m \<and>
      location m = (52, - 2))"
proof -
  have a: "accessible (rows soho_deaths)"
    by (simp add: accessible_def soho_deaths_def)
  have ne: "point_rows (rows soho_deaths) \<noteq> []"
    by (simp add: point_rows_def soho_deaths_def)
  have v: "sum_list (lats (point_rows (rows soho_deaths))) /
        real (length (point_rows (rows soho_deaths))) = 52"
    "sum_list (lons (point_rows (rows soho_deaths))) /
        real (length (point_rows (rows soho_deaths))) = - 2"
    by (simp_all add: point_rows_def lats_def lons_def soho_deaths_def)
  note t = center_is_mean_of_deaths [OF loads_soho, of defaults]
  from t a ne have "center_of (rows soho_deaths) =
      Inr (Some (sum_list (lats (point_rows (rows soho_deaths))) /
                 real (length (point_rows (rows soho_deaths)))),
           Some (sum_list (lons (point_rows (rows soho_deaths))) /
                 real (length (point_rows (rows soho_deaths)))))"
    by blast
  then have A: "center_of (rows soho_deaths) = Inr (Some 52, Some (- 2))"
    unfolding v .
  from t renders_soho [of defaults] obtain m where
    "rendered_map (run (disk (Inr soho_deaths) (Inr soho_pumps)) defaults) = Some m"
    "location m =
       (sum_list (lats (point_rows (rows soho_deaths))) /
          real (length (point_rows (rows soho_deaths))),
        sum_list (lons (point_rows (rows soho_deaths))) /
          real (length (point_rows (rows soho_deaths))))"
    by blast
  then have B: "\<exists>m. rendered_map (run (disk (Inr soho_deaths) (Inr soho_pumps)) defaults) = Some m \<and>
      location m = (52, - 2)"
    unfolding v by blast
  have ae: "accessible (rows no_deaths)" by (simp add: no_deaths_def accessible_def)
  have e: "point_rows (rows no_deaths) = []" by (simp add: no_deaths_def point_rows_def)
  from center_is_mean_of_deaths [OF loads_no_deaths, of defaults] ae e
  have C: "center_of (rows no_deaths) = Inr (None, None) \<and>
      run (disk (Inr no_deaths) (Inr soho_pumps)) defaults =
        \<lparr>page = [Title, Intro] @ controls, crashed = Some ValueError\<rparr>"
    by blast
  let ?off = "defaults\<lparr>show_heatmap := False, show_skeletons := False\<rparr>"
  have ap: "accessible (rows partly_located_deaths)"
    by (simp add: accessible_def partly_located_deaths_def)
  have o: "renders ?off partly_located_deaths soho_pumps"
    by (simp add: renders_partly_located)
  have w: "sum_list (lats (point_rows (rows partly_located_deaths))) /
        real (length (point_rows (rows partly_located_deaths))) = 52"
    "sum_list (lons (point_rows (rows partly_located_deaths))) /
        real (length (point_rows (rows partly_located_deaths))) = - 2"
    by (simp_all add: point_rows_def lats_def lons_def partly_located_deaths_def)
  from center_is_mean_of_deaths [OF loads_partly_located, of ?off] o obtain m where
    "rendered_map (run (disk (Inr partly_located_deaths) (Inr soho_pumps)) ?off) = Some m"
    "location m =
       (sum_list (lats (point_rows (rows partly_located_deaths))) /
          real (length (point_rows (rows partly_located_deaths))),
        sum_list (lons (point_rows (rows partly_located_deaths))) /
          real (length (point_rows (rows partly_located_deaths))))"
    by blast
  then have D: "\<exists>m. rendered_map (run (disk (Inr partly_located_deaths) (Inr soho_pumps)) ?off) =
        Some m \<and> location m = (52, - 2)"
    unfolding w by blast
  from A B C D show ?thesis by blast
qed

end
